theory Spec2Isabelle
  imports Main "HOL-Library.Stream"
begin

section \<open>Python results and the random source\<close>

text \<open>
  Every function of \<^verbatim>\<open>data_generation.py\<close> and \<^verbatim>\<open>Dataset.py\<close> that can raise returns
  \<open>error + 'a\<close>, with \<open>Inl\<close> the exception that leaves the function.
\<close>

datatype error = ValueError | UnboundLocalError | RuntimeError | IndexError | OSError

definition bnd :: "error + 'a \<Rightarrow> ('a \<Rightarrow> error + 'b) \<Rightarrow> error + 'b" where
  "bnd m f = (case m of Inl e \<Rightarrow> Inl e | Inr x \<Rightarrow> f x)"

text \<open>
  The module-level generator of \<^verbatim>\<open>random\<close> is a state that every draw advances. It is
  modelled as a stream of naturals, one per draw: \<^verbatim>\<open>random.randint(a, b)\<close> raises
  \<^verbatim>\<open>ValueError\<close> on an empty range and otherwise maps the next natural onto \<open>[a, b]\<close>;
  every value of the range is the image of some natural. The distribution of the draws
  is the library's and is not part of the model.
\<close>

type_synonym rng = "nat stream"

definition randint :: "int \<Rightarrow> int \<Rightarrow> rng \<Rightarrow> error + (int \<times> rng)" where
  "randint a b g =
     (if b < a then Inl ValueError
      else Inr (a + int (shd g) mod (b - a + 1), stl g))"

text \<open>
  \<^verbatim>\<open>random.choices(population, weights=w)[0]\<close>, as CPython (3.9 and later) computes it:
  the running sums of the weights, a \<^verbatim>\<open>ValueError\<close> when their number differs from the
  population's or when the total is not positive, then \<^verbatim>\<open>bisect\<close> of a point of
  \<open>[0, total)\<close> in the running sums between \<open>0\<close> and \<open>n - 1\<close>. The point
  \<^verbatim>\<open>random() * total\<close> is a float in the source; with the integer weights of
  \<^verbatim>\<open>case_ratio\<close> the model takes an integer point of \<open>[0, total)\<close>, which reaches the
  same elements of the population.
\<close>

fun accumulate :: "int \<Rightarrow> int list \<Rightarrow> int list" where
  "accumulate acc [] = []"
| "accumulate acc (w # ws) = (acc + w) # accumulate (acc + w) ws"

function bisect :: "int list \<Rightarrow> int \<Rightarrow> nat \<Rightarrow> nat \<Rightarrow> nat" where
  "bisect a x lo hi =
     (if lo < hi then
        (let mid = (lo + hi) div 2 in
         if x < a ! mid then bisect a x lo mid else bisect a x (mid + 1) hi)
      else lo)"
  by pat_completeness auto
termination
  by (relation "measure (\<lambda>(a, x, lo, hi). hi - lo)") auto

definition choices :: "'a list \<Rightarrow> int list \<Rightarrow> rng \<Rightarrow> error + ('a \<times> rng)" where
  "choices population weights g =
     (let n = length population;
          cum_weights = accumulate 0 weights
      in if length cum_weights \<noteq> n then Inl ValueError
         else if cum_weights = [] then Inl IndexError
         else let total = last cum_weights
              in if total \<le> 0 then Inl ValueError
                 else Inr (population ! bisect cum_weights (int (shd g) mod total) 0 (n - 1),
                           stl g))"

text \<open>A tuple slice \<^verbatim>\<open>t[a:b]\<close> with \<open>0 \<le> a \<le> b\<close>; slicing never raises.\<close>

definition slice :: "'a list \<Rightarrow> nat \<Rightarrow> nat \<Rightarrow> 'a list" where
  "slice t a b = take (b - a) (drop a t)"

section \<open>Images\<close>

text \<open>
  A PIL image is its mode, its size, the colour it was created with and the strokes
  drawn on it, in drawing order. The end points of a fin are floats computed with
  \<^verbatim>\<open>math.sin\<close> and \<^verbatim>\<open>math.cos\<close>; a fin stroke is kept symbolic:
  \<open>FinLine (x0, y0) l a sx sy\<close> is the line from \<open>(x0, y0)\<close> to
  \<open>(x0 + sx * l * sin a, y0 + sy * l * cos a)\<close> with \<open>a\<close> in degrees.
\<close>

type_synonym point = "int \<times> int"

datatype colour = Named string | Level int

datatype stroke = Line point point | FinLine point int int int int

record image =
  im_mode :: string
  im_size :: "int \<times> int"
  background :: colour
  strokes :: "stroke list"

definition Image_new :: "string \<Rightarrow> int \<times> int \<Rightarrow> colour \<Rightarrow> image" where
  "Image_new m sz c = \<lparr>im_mode = m, im_size = sz, background = c, strokes = []\<rparr>"

definition draw_line :: "stroke \<Rightarrow> image \<Rightarrow> image" where
  "draw_line s img = img\<lparr>strokes := strokes img @ [s]\<rparr>"

definition draw_all :: "stroke list \<Rightarrow> image \<Rightarrow> image" where
  "draw_all ss img = foldl (\<lambda>i s. draw_line s i) img ss"

definition convert_L :: "image \<Rightarrow> image" where
  "convert_L img = img\<lparr>im_mode := ''L''\<rparr>"

section \<open>Cross-Fin sampling and rendering\<close>

record xf_params =
  label :: int
  length_case :: string
  fin_case :: string
  top_length :: int
  bottom_length :: int
  top_fin_length :: int
  top_fin_angle_deg :: int
  bottom_fin_length :: int
  bottom_fin_angle_deg :: int
  top_y :: int
  bottom_y :: int

text \<open>
  \<^verbatim>\<open>int(image_size*0.8)\<close>: the float product truncated towards zero. For every image size
  of magnitude below \<open>2^50\<close> the rounding of the product does not change its integer
  part, which is that of \<open>4 * image_size / 5\<close>.
\<close>

definition int_times_08 :: "int \<Rightarrow> int" where
  "int_times_08 n = (if 0 \<le> n then (4 * n) div 5 else - ((4 * (- n)) div 5))"

definition draw_cross_fins :: "point \<Rightarrow> int \<Rightarrow> int \<Rightarrow> stroke list" where
  "draw_cross_fins center fin_length angle =
     [FinLine center fin_length angle (-1) (-1),
      FinLine center fin_length angle 1 (-1),
      FinLine center fin_length angle (-1) 1,
      FinLine center fin_length angle 1 1]"

definition generate_xf_image ::
  "int \<Rightarrow> string \<Rightarrow> string \<Rightarrow> int \<Rightarrow> rng \<Rightarrow> error + ((image \<times> xf_params) \<times> rng)" where
  "generate_xf_image lbl length_case0 fin_case0 image_size g0 =
     bnd (randint (image_size div 5) (image_size div 5 * 2) g0) (\<lambda>(top_y', g1).
     bnd (randint (image_size div 5 * 3) (image_size div 5 * 4) g1) (\<lambda>(bottom_y', g2).
     let min_length = 45; max_length = int_times_08 image_size in
     bnd (if lbl = 1 then
            (if length_case0 = ''LONG'' then
               bnd (randint min_length max_length g2) (\<lambda>(top_length', g3).
               bnd (randint 2 62 g3) (\<lambda>(delta, g4).
               Inr ((length_case0, top_length', max min_length (top_length' - delta)), g4)))
             else if length_case0 = ''SHORT'' then
               bnd (randint min_length max_length g2) (\<lambda>(bottom_length', g3).
               bnd (randint 2 62 g3) (\<lambda>(delta, g4).
               Inr ((length_case0, max min_length (bottom_length' - delta), bottom_length'), g4)))
             else Inl UnboundLocalError)
          else
            bnd (randint min_length max_length g2) (\<lambda>(top_length', g3).
            Inr ((''EQUAL'', top_length', top_length'), g3)))
       (\<lambda>((length_case', top_length', bottom_length'), g5).
     let top_x = image_size div 2 - top_length' div 2;
         bottom_x = image_size div 2 - bottom_length' div 2 in
     bnd (randint 10 (min 35 (top_length' div 3)) g5) (\<lambda>(top_fin_length', g6).
     bnd (randint 15 75 g6) (\<lambda>(top_fin_angle_deg', g7).
     bnd (if fin_case0 = ''SAME_CONFIG'' then Inr ((top_fin_length', top_fin_angle_deg'), g7)
          else
            bnd (randint 10 (min 35 (bottom_length' div 3)) g7) (\<lambda>(bottom_fin_length', g8).
            bnd (randint 15 75 g8) (\<lambda>(bottom_fin_angle_deg', g9).
            Inr ((bottom_fin_length', bottom_fin_angle_deg'), g9))))
       (\<lambda>((bottom_fin_length', bottom_fin_angle_deg'), g10).
     let top_line_left = (top_x, top_y');
         top_line_right = (top_x + top_length', top_y');
         bottom_line_left = (bottom_x, bottom_y');
         bottom_line_right = (bottom_x + bottom_length', bottom_y');
         img = draw_all
                 ([Line top_line_left top_line_right,
                   Line bottom_line_left bottom_line_right]
                  @ draw_cross_fins top_line_left top_fin_length' top_fin_angle_deg'
                  @ draw_cross_fins top_line_right top_fin_length' top_fin_angle_deg'
                  @ draw_cross_fins bottom_line_left bottom_fin_length' bottom_fin_angle_deg'
                  @ draw_cross_fins bottom_line_right bottom_fin_length' bottom_fin_angle_deg')
                 (Image_new ''RGB'' (image_size, image_size) (Named ''white''));
         params = \<lparr>label = lbl, length_case = length_case', fin_case = fin_case0,
                   top_length = top_length', bottom_length = bottom_length',
                   top_fin_length = top_fin_length', top_fin_angle_deg = top_fin_angle_deg',
                   bottom_fin_length = bottom_fin_length',
                   bottom_fin_angle_deg = bottom_fin_angle_deg',
                   top_y = top_y', bottom_y = bottom_y'\<rparr>
     in Inr ((img, params), g10)))))))"

definition generate_xf_dataset_step ::
  "int list \<Rightarrow> int \<Rightarrow> rng \<Rightarrow> error + ((image \<times> xf_params) \<times> rng)" where
  "generate_xf_dataset_step case_ratio image_size g0 =
     bnd (randint 0 1 g0) (\<lambda>(lbl, g1).
     bnd (choices [''SAME_CONFIG'', ''DIFF_CONFIG''] (slice case_ratio 4 6) g1) (\<lambda>(fin_case', g2).
     bnd (if lbl = 1 then choices [''LONG'', ''SHORT''] (slice case_ratio 2 4) g2
          else Inr (''EQUAL'', g2)) (\<lambda>(length_case', g3).
     generate_xf_image lbl length_case' fin_case' image_size g3)))"

text \<open>
  The loop \<^verbatim>\<open>for _ in range(num_images)\<close> with its two accumulators; an exception in any
  iteration leaves the function.
\<close>

primrec xf_dataset_loop ::
  "nat \<Rightarrow> int list \<Rightarrow> int \<Rightarrow> image list \<Rightarrow> xf_params list \<Rightarrow> rng
     \<Rightarrow> error + ((image list \<times> xf_params list) \<times> rng)" where
  "xf_dataset_loop 0 case_ratio image_size images configs g = Inr ((images, configs), g)"
| "xf_dataset_loop (Suc n) case_ratio image_size images configs g =
     bnd (generate_xf_dataset_step case_ratio image_size g) (\<lambda>((img, params), g').
     xf_dataset_loop n case_ratio image_size (images @ [img]) (configs @ [params]) g')"

definition generate_xf_dataset ::
  "int \<Rightarrow> int list \<Rightarrow> int \<Rightarrow> rng \<Rightarrow> error + ((image list \<times> xf_params list) \<times> rng)" where
  "generate_xf_dataset num_images case_ratio image_size g =
     xf_dataset_loop (nat num_images) case_ratio image_size [] [] g"

section \<open>M\"uller-Lyer sampling and rendering\<close>

record ml_params =
  ml_label :: int
  top_dir_case :: string
  bottom_dir_case :: string
  ml_fin_case :: string
  shaft_length :: int
  ml_top_fin_length :: int
  ml_top_fin_angle_deg :: int
  ml_bottom_fin_length :: int
  ml_bottom_fin_angle_deg :: int
  ml_top_y :: int
  ml_bottom_y :: int

definition draw_arrowhead :: "point \<Rightarrow> int \<Rightarrow> int \<Rightarrow> string \<Rightarrow> stroke list" where
  "draw_arrowhead center fin_length angle direction =
     (if direction = ''right''
      then [FinLine center fin_length angle (-1) (-1), FinLine center fin_length angle (-1) 1]
      else [])
     @ (if direction = ''left''
        then [FinLine center fin_length angle 1 (-1), FinLine center fin_length angle 1 1]
        else [])"

definition generate_muller_lyer_image ::
  "string \<Rightarrow> string \<Rightarrow> string \<Rightarrow> int \<Rightarrow> rng \<Rightarrow> error + ((image \<times> ml_params) \<times> rng)" where
  "generate_muller_lyer_image top_dir_case0 bottom_dir_case0 fin_case0 image_size g0 =
     bnd (randint (image_size div 5) (image_size div 5 * 2) g0) (\<lambda>(top_y', g1).
     bnd (randint (image_size div 5 * 3) (image_size div 5 * 4) g1) (\<lambda>(bottom_y', g2).
     let min_length = 45; max_length = int_times_08 image_size in
     bnd (randint min_length max_length g2) (\<lambda>(shaft_length', g3).
     let top_length' = shaft_length';
         bottom_length' = shaft_length';
         top_x = image_size div 2 - top_length' div 2;
         bottom_x = image_size div 2 - bottom_length' div 2 in
     bnd (randint 15 (min 35 (top_length' div 3)) g3) (\<lambda>(top_fin_length', g4).
     bnd (randint 15 75 g4) (\<lambda>(top_fin_angle_deg', g5).
     bnd (if fin_case0 = ''SAME_CONFIG'' then Inr ((top_fin_length', top_fin_angle_deg'), g5)
          else
            bnd (randint 15 (min 35 (bottom_length' div 3)) g5) (\<lambda>(bottom_fin_length', g6).
            bnd (randint 15 75 g6) (\<lambda>(bottom_fin_angle_deg', g7).
            Inr ((bottom_fin_length', bottom_fin_angle_deg'), g7))))
       (\<lambda>((bottom_fin_length', bottom_fin_angle_deg'), g8).
     let top_line_left = (top_x, top_y');
         top_line_right = (top_x + top_length', top_y');
         bottom_line_left = (bottom_x, bottom_y');
         bottom_line_right = (bottom_x + bottom_length', bottom_y');
         top_head = (\<lambda>l r. draw_arrowhead top_line_left top_fin_length' top_fin_angle_deg' l
                          @ draw_arrowhead top_line_right top_fin_length' top_fin_angle_deg' r);
         bottom_head = (\<lambda>l r.
            draw_arrowhead bottom_line_left bottom_fin_length' bottom_fin_angle_deg' l
            @ draw_arrowhead bottom_line_right bottom_fin_length' bottom_fin_angle_deg' r);
         heads =
           (if top_dir_case0 = ''LONG'' then
              top_head ''right'' ''left''
              @ (if bottom_dir_case0 = ''SAME_DIR'' then bottom_head ''right'' ''left''
                 else if bottom_dir_case0 = ''DIFF_DIR'' then bottom_head ''left'' ''right''
                 else [])
            else if top_dir_case0 = ''SHORT'' then
              top_head ''left'' ''right''
              @ (if bottom_dir_case0 = ''SAME_DIR'' then bottom_head ''left'' ''right''
                 else if bottom_dir_case0 = ''DIFF_DIR'' then bottom_head ''right'' ''left''
                 else [])
            else []);
         img = draw_all
                 ([Line top_line_left top_line_right,
                   Line bottom_line_left bottom_line_right] @ heads)
                 (Image_new ''RGB'' (image_size, image_size) (Named ''white''));
         params = \<lparr>ml_label = 0, top_dir_case = top_dir_case0,
                   bottom_dir_case = bottom_dir_case0, ml_fin_case = fin_case0,
                   shaft_length = shaft_length',
                   ml_top_fin_length = top_fin_length',
                   ml_top_fin_angle_deg = top_fin_angle_deg',
                   ml_bottom_fin_length = bottom_fin_length',
                   ml_bottom_fin_angle_deg = bottom_fin_angle_deg',
                   ml_top_y = top_y', ml_bottom_y = bottom_y'\<rparr>
     in Inr ((img, params), g8)))))))"

definition generate_muller_lyer_dataset_step ::
  "int list \<Rightarrow> int \<Rightarrow> rng \<Rightarrow> error + ((image \<times> ml_params) \<times> rng)" where
  "generate_muller_lyer_dataset_step case_ratio image_size g0 =
     bnd (choices [''LONG'', ''SHORT''] (slice case_ratio 2 4) g0) (\<lambda>(top_dir_case', g1).
     bnd (choices [''SAME_DIR'', ''DIFF_DIR''] (slice case_ratio 4 6) g1) (\<lambda>(bottom_dir_case', g2).
     bnd (choices [''SAME_CONFIG'', ''DIFF_CONFIG''] (slice case_ratio 4 6) g2) (\<lambda>(fin_case', g3).
     generate_muller_lyer_image top_dir_case' bottom_dir_case' fin_case' image_size g3)))"

primrec ml_dataset_loop ::
  "nat \<Rightarrow> int list \<Rightarrow> int \<Rightarrow> image list \<Rightarrow> ml_params list \<Rightarrow> rng
     \<Rightarrow> error + ((image list \<times> ml_params list) \<times> rng)" where
  "ml_dataset_loop 0 case_ratio image_size images configs g = Inr ((images, configs), g)"
| "ml_dataset_loop (Suc n) case_ratio image_size images configs g =
     bnd (generate_muller_lyer_dataset_step case_ratio image_size g) (\<lambda>((img, params), g').
     ml_dataset_loop n case_ratio image_size (images @ [img]) (configs @ [params]) g')"

definition generate_muller_lyer_dataset ::
  "int \<Rightarrow> int list \<Rightarrow> int \<Rightarrow> rng \<Rightarrow> error + ((image list \<times> ml_params list) \<times> rng)" where
  "generate_muller_lyer_dataset num_images case_ratio image_size g =
     ml_dataset_loop (nat num_images) case_ratio image_size [] [] g"

section \<open>File names: formatting and the anchored patterns\<close>

text \<open>
  File names are strings of code points below 256, the range in which the generator
  writes; there \<^verbatim>\<open>\d\<close> matches exactly the ten ASCII digits. \<^verbatim>\<open>str\<close> of an integer is its
  decimal numeral, with a minus sign when negative; \<^verbatim>\<open>int\<close> of a string of digits is the
  number it denotes (leading zeros allowed).
\<close>

definition digit_char :: "nat \<Rightarrow> char" where
  "digit_char d = ''0123456789'' ! d"

fun str_nat :: "nat \<Rightarrow> string" where
  "str_nat n = (if n < 10 then [digit_char n] else str_nat (n div 10) @ [digit_char (n mod 10)])"

declare str_nat.simps [simp del]

definition py_str :: "int \<Rightarrow> string" where
  "py_str i = (if i < 0 then CHR ''-'' # str_nat (nat (- i)) else str_nat (nat i))"

definition is_digit :: "char \<Rightarrow> bool" where
  "is_digit c = (c \<in> set ''0123456789'')"

definition digit_value :: "char \<Rightarrow> nat" where
  "digit_value c = length (takeWhile (\<lambda>d. d \<noteq> c) ''0123456789'')"

definition py_int :: "string \<Rightarrow> int" where
  "py_int s = foldl (\<lambda>acc c. 10 * acc + int (digit_value c)) 0 s"

text \<open>
  The two patterns of \<^verbatim>\<open>Dataset.py\<close> are sequences of the items below. \<^verbatim>\<open>re.match\<close> tries
  the items from the start of the string, left to right and with backtracking: an item
  offers its ways to match a prefix of the remaining input in the order of preference
  of Python's \<^verbatim>\<open>re\<close> (\<^verbatim>\<open>\d+\<close> greedy, longest run first; an alternation in the order
  written), and the first way under which the rest of the pattern matches is taken.
  \<^verbatim>\<open>^\<close> matches at position 0; \<^verbatim>\<open>$\<close> matches at the end of the string and also just
  before a newline that is the last character, as \<^verbatim>\<open>re\<close> defines it without
  \<^verbatim>\<open>MULTILINE\<close>.
\<close>

datatype atom = Lit string | CharSet string | DigitPlus | Alt "string list" | Bol | Eol

datatype item = Plain atom | Group atom

definition lit_match :: "string \<Rightarrow> string \<Rightarrow> (string \<times> string) list" where
  "lit_match l s = (if take (length l) s = l then [(l, drop (length l) s)] else [])"

fun atom_match :: "atom \<Rightarrow> nat \<Rightarrow> string \<Rightarrow> (string \<times> string) list" where
  "atom_match (Lit l) pos s = lit_match l s"
| "atom_match (CharSet cs) pos s =
     (case s of [] \<Rightarrow> [] | c # t \<Rightarrow> if c \<in> set cs then [([c], t)] else [])"
| "atom_match DigitPlus pos s =
     map (\<lambda>k. (take k s, drop k s)) (rev [1..<Suc (length (takeWhile is_digit s))])"
| "atom_match (Alt ls) pos s = concat (map (\<lambda>l. lit_match l s) ls)"
| "atom_match Bol pos s = (if pos = 0 then [([], s)] else [])"
| "atom_match Eol pos s = (if s = [] \<or> s = [CHR 0x0A] then [([], s)] else [])"

fun first_some :: "('a \<Rightarrow> 'b option) \<Rightarrow> 'a list \<Rightarrow> 'b option" where
  "first_some f [] = None"
| "first_some f (x # xs) = (case f x of Some y \<Rightarrow> Some y | None \<Rightarrow> first_some f xs)"

fun atom_of :: "item \<Rightarrow> atom" where
  "atom_of (Plain a) = a"
| "atom_of (Group a) = a"

fun capture :: "item \<Rightarrow> string list \<Rightarrow> string \<Rightarrow> string list" where
  "capture (Plain a) groups m = groups"
| "capture (Group a) groups m = groups @ [m]"

primrec re_run :: "item list \<Rightarrow> nat \<Rightarrow> string \<Rightarrow> string list \<Rightarrow> string list option" where
  "re_run [] pos s groups = Some groups"
| "re_run (it # its) pos s groups =
     first_some (\<lambda>(m, rest). re_run its (pos + length m) rest (capture it groups m))
       (atom_match (atom_of it) pos s)"

definition re_match :: "item list \<Rightarrow> string \<Rightarrow> string list option" where
  "re_match pattern s = re_run pattern 0 s []"

text \<open>\<^verbatim>\<open>m.group(k)\<close> for \<open>1 \<le> k\<close> and at most the number of groups.\<close>

definition group :: "string list \<Rightarrow> nat \<Rightarrow> string" where
  "group m k = m ! (k - 1)"

definition xf_pattern :: "item list" where
  "xf_pattern =
     [Plain Bol, Plain (Lit ''xf_''), Group DigitPlus, Plain (Lit ''_''),
      Group (CharSet ''01''), Plain (Lit ''_''),
      Group (Alt [''EQUAL'', ''LONG'', ''SHORT'']), Plain (Lit ''_''),
      Group (Alt [''SAME_CONFIG'', ''DIFF_CONFIG'']), Plain (Lit ''_''),
      Group DigitPlus, Plain (Lit ''_''), Group DigitPlus, Plain (Lit ''_''),
      Group DigitPlus, Plain (Lit ''_''), Group DigitPlus, Plain (Lit ''_''),
      Group DigitPlus, Plain (Lit ''_''), Group DigitPlus, Plain (Lit ''_''),
      Group DigitPlus, Plain (Lit ''_''), Group DigitPlus, Plain (Lit ''.png''), Plain Eol]"

definition ml_pattern :: "item list" where
  "ml_pattern =
     [Plain Bol, Plain (Lit ''ml_''), Group DigitPlus, Plain (Lit ''_''),
      Group (CharSet ''01''), Plain (Lit ''_''),
      Group (Alt [''LONG'', ''SHORT'']), Plain (Lit ''_''),
      Group (Alt [''DIFF_DIR'', ''SAME_DIR'']), Plain (Lit ''_''),
      Group (Alt [''SAME_CONFIG'', ''DIFF_CONFIG'']), Plain (Lit ''_''),
      Group DigitPlus, Plain (Lit ''_''),
      Group DigitPlus, Plain (Lit ''_''), Group DigitPlus, Plain (Lit ''_''),
      Group DigitPlus, Plain (Lit ''_''), Group DigitPlus, Plain (Lit ''_''),
      Group DigitPlus, Plain (Lit ''_''), Group DigitPlus, Plain (Lit ''.png''), Plain Eol]"

text \<open>The file names of \<^verbatim>\<open>generate_and_save\<close>: the f-strings without the directory.\<close>

definition xf_filename :: "int \<Rightarrow> xf_params \<Rightarrow> string" where
  "xf_filename i config =
     ''xf_'' @ py_str i @ ''_'' @ py_str (label config) @ ''_'' @ length_case config
     @ ''_'' @ fin_case config @ ''_'' @ py_str (top_length config)
     @ ''_'' @ py_str (bottom_length config) @ ''_'' @ py_str (top_fin_length config)
     @ ''_'' @ py_str (top_fin_angle_deg config) @ ''_'' @ py_str (bottom_fin_length config)
     @ ''_'' @ py_str (bottom_fin_angle_deg config) @ ''_'' @ py_str (top_y config)
     @ ''_'' @ py_str (bottom_y config) @ ''.png''"

definition ml_filename :: "int \<Rightarrow> ml_params \<Rightarrow> string" where
  "ml_filename i config =
     ''ml_'' @ py_str i @ ''_'' @ py_str (ml_label config) @ ''_'' @ top_dir_case config
     @ ''_'' @ bottom_dir_case config @ ''_'' @ ml_fin_case config
     @ ''_'' @ py_str (shaft_length config) @ ''_'' @ py_str (ml_top_fin_length config)
     @ ''_'' @ py_str (ml_top_fin_angle_deg config)
     @ ''_'' @ py_str (ml_bottom_fin_length config)
     @ ''_'' @ py_str (ml_bottom_fin_angle_deg config) @ ''_'' @ py_str (ml_top_y config)
     @ ''_'' @ py_str (ml_bottom_y config) @ ''.png''"

section \<open>The datasets of \<^verbatim>\<open>Dataset.py\<close>\<close>

text \<open>The dictionary \<^verbatim>\<open>p\<close> that \<^verbatim>\<open>CrossFinDataset.__init__\<close> builds from a match.\<close>

record xf_entry =
  p_index :: int
  p_label :: int
  p_length_case :: string
  p_fin_case :: string
  p_top_length :: int
  p_bottom_length :: int
  p_top_fin_length :: int
  p_top_fin_angle :: int
  p_bot_fin_length :: int
  p_bot_fin_angle :: int
  p_top_y :: int
  p_bottom_y :: int
  p_filename :: string

definition CrossFin_decode :: "string \<Rightarrow> xf_entry option" where
  "CrossFin_decode fname =
     (case re_match xf_pattern fname of
        None \<Rightarrow> None
      | Some m \<Rightarrow>
          Some \<lparr>p_index = py_int (group m 1), p_label = py_int (group m 2),
                p_length_case = group m 3, p_fin_case = group m 4,
                p_top_length = py_int (group m 5), p_bottom_length = py_int (group m 6),
                p_top_fin_length = py_int (group m 7), p_top_fin_angle = py_int (group m 8),
                p_bot_fin_length = py_int (group m 9), p_bot_fin_angle = py_int (group m 10),
                p_top_y = py_int (group m 11), p_bottom_y = py_int (group m 12),
                p_filename = fname\<rparr>)"

text \<open>The dictionary \<^verbatim>\<open>params\<close> that \<^verbatim>\<open>MullerLyerDataset.__init__\<close> builds from a match.\<close>

record ml_entry =
  e_index :: int
  e_label :: int
  e_top_dir :: string
  e_bottom_dir :: string
  e_fin_case :: string
  e_shaft_len :: int
  e_top_fin_len :: int
  e_top_fin_ang :: int
  e_bot_fin_len :: int
  e_bot_fin_ang :: int
  e_top_y :: int
  e_bottom_y :: int
  e_filename :: string

definition MullerLyer_decode :: "string \<Rightarrow> ml_entry option" where
  "MullerLyer_decode filename =
     (case re_match ml_pattern filename of
        None \<Rightarrow> None
      | Some m \<Rightarrow>
          Some \<lparr>e_index = py_int (group m 1), e_label = py_int (group m 2),
                e_top_dir = group m 3, e_bottom_dir = group m 4, e_fin_case = group m 5,
                e_shaft_len = py_int (group m 6),
                e_top_fin_len = py_int (group m 7), e_top_fin_ang = py_int (group m 8),
                e_bot_fin_len = py_int (group m 9), e_bot_fin_ang = py_int (group m 10),
                e_top_y = py_int (group m 11), e_bottom_y = py_int (group m 12),
                e_filename = filename\<rparr>)"

text \<open>
  A dataset object: its directory, its optional transform and the two parallel lists
  filled by the scan. The transform maps a PIL image to a value of any type and may
  raise; an item that no transform touched is the PIL image itself.
\<close>

datatype 't sample = PIL image | Transformed 't

record ('t, 'p) dataset =
  data_dir :: string
  transform :: "(image \<Rightarrow> error + 't) option"
  image_files :: "string list"
  params :: "'p list"

definition scan :: "(string \<Rightarrow> 'p option) \<Rightarrow> string list \<Rightarrow> string list \<times> 'p list" where
  "scan decode names =
     foldl (\<lambda>(files, ps) fname.
              case decode fname of
                None \<Rightarrow> (files, ps)
              | Some p \<Rightarrow> (files @ [fname], ps @ [p]))
           ([], []) names"

text \<open>
  \<^verbatim>\<open>__init__\<close>: \<open>listdir\<close> is the result of \<^verbatim>\<open>os.listdir(data_dir)\<close>, an error or the
  names in the order the file system gives them.
\<close>

definition CrossFinDataset_init ::
  "string \<Rightarrow> (image \<Rightarrow> error + 't) option \<Rightarrow> error + string list
     \<Rightarrow> error + ('t, xf_entry) dataset" where
  "CrossFinDataset_init dir tr listdir =
     bnd listdir (\<lambda>names.
     let (files, ps) = scan CrossFin_decode names in
     if files = [] then Inl RuntimeError
     else Inr \<lparr>data_dir = dir, transform = tr, image_files = files, params = ps\<rparr>)"

definition MullerLyerDataset_init ::
  "string \<Rightarrow> (image \<Rightarrow> error + 't) option \<Rightarrow> error + string list
     \<Rightarrow> error + ('t, ml_entry) dataset" where
  "MullerLyerDataset_init dir tr listdir =
     bnd listdir (\<lambda>names.
     let (files, ps) = scan MullerLyer_decode names in
     if files = [] then Inl RuntimeError
     else Inr \<lparr>data_dir = dir, transform = tr, image_files = files, params = ps\<rparr>)"

text \<open>List indexing with Python's negative indices and \<^verbatim>\<open>IndexError\<close>.\<close>

definition getitem :: "'a list \<Rightarrow> int \<Rightarrow> error + 'a" where
  "getitem xs idx =
     (if 0 \<le> idx \<and> idx < int (length xs) then Inr (xs ! nat idx)
      else if idx < 0 \<and> - int (length xs) \<le> idx then Inr (xs ! nat (int (length xs) + idx))
      else Inl IndexError)"

definition os_path_join :: "string \<Rightarrow> string \<Rightarrow> string" where
  "os_path_join a b =
     (if b \<noteq> [] \<and> hd b = CHR ''/'' then b
      else if a = [] \<or> last a = CHR ''/'' then a @ b
      else a @ ''/'' @ b)"

text \<open>
  \<^verbatim>\<open>Image.open(path).convert('L')\<close>: \<open>opener\<close> is the file store as \<^verbatim>\<open>Image.open\<close> sees it,
  an error or the decoded image for each path.
\<close>

definition open_L :: "(string \<Rightarrow> error + image) \<Rightarrow> string \<Rightarrow> error + image" where
  "open_L opener path = bnd (opener path) (\<lambda>img. Inr (convert_L img))"

definition apply_transform :: "(image \<Rightarrow> error + 't) option \<Rightarrow> image \<Rightarrow> error + 't sample" where
  "apply_transform tr img =
     (case tr of
        None \<Rightarrow> Inr (PIL img)
      | Some f \<Rightarrow> bnd (f img) (\<lambda>x. Inr (Transformed x)))"

definition IMG_SIZE :: int where
  "IMG_SIZE = 256"

definition CrossFinDataset_getitem ::
  "('t, xf_entry) dataset \<Rightarrow> (string \<Rightarrow> error + image) \<Rightarrow> int \<Rightarrow> error + ('t sample \<times> int)" where
  "CrossFinDataset_getitem self opener idx =
     bnd (getitem (image_files self) idx) (\<lambda>fname.
     bnd (getitem (params self) idx) (\<lambda>p.
     let path = os_path_join (data_dir self) fname in
     bnd (open_L opener path) (\<lambda>img.
     bnd (apply_transform (transform self) img) (\<lambda>img'.
     Inr (img', p_label p)))))"

definition MullerLyerDataset_getitem ::
  "('t, ml_entry) dataset \<Rightarrow> (string \<Rightarrow> error + image) \<Rightarrow> int
     \<Rightarrow> error + ('t sample \<times> ml_entry)" where
  "MullerLyerDataset_getitem self opener idx =
     bnd (getitem (image_files self) idx) (\<lambda>fname.
     let img_path = os_path_join (data_dir self) fname in
     bnd (getitem (params self) idx) (\<lambda>ps.
     let image = (case open_L opener img_path of
                    Inr img \<Rightarrow> img
                  | Inl e \<Rightarrow> Image_new ''L'' (IMG_SIZE, IMG_SIZE) (Level 128)) in
     bnd (apply_transform (transform self) image) (\<lambda>image'.
     Inr (image', ps))))"

section \<open>Saving a generated dataset\<close>

text \<open>
  The part of the file system that \<^verbatim>\<open>generate_and_save\<close> touches: the directories that
  exist and the images saved under their paths. \<^verbatim>\<open>img.save\<close> raises when the directory of
  the path does not exist.
\<close>

record filesystem =
  dirs :: "string set"
  files :: "string \<rightharpoonup> image"

definition path_exists :: "filesystem \<Rightarrow> string \<Rightarrow> bool" where
  "path_exists fs p = (p \<in> dirs fs \<or> files fs p \<noteq> None)"

definition makedirs :: "string \<Rightarrow> filesystem \<Rightarrow> error + filesystem" where
  "makedirs p fs =
     (if path_exists fs p then Inl OSError else Inr (fs\<lparr>dirs := insert p (dirs fs)\<rparr>))"

definition save :: "image \<Rightarrow> string \<Rightarrow> string \<Rightarrow> filesystem \<Rightarrow> error + filesystem" where
  "save img dir name fs =
     (if dir \<in> dirs fs then Inr (fs\<lparr>files := (files fs)(dir @ ''/'' @ name \<mapsto> img)\<rparr>)
      else Inl OSError)"

primrec save_all ::
  "string \<Rightarrow> (int \<Rightarrow> 'p \<Rightarrow> string) \<Rightarrow> (nat \<times> image \<times> 'p) list \<Rightarrow> filesystem
     \<Rightarrow> error + filesystem" where
  "save_all dir name [] fs = Inr fs"
| "save_all dir name (x # xs) fs =
     (case x of (i, img, config) \<Rightarrow>
        bnd (save img dir (name (int i) config) fs) (\<lambda>fs'. save_all dir name xs fs'))"

definition ensure_dir :: "string \<Rightarrow> filesystem \<Rightarrow> error + filesystem" where
  "ensure_dir d fs = (if \<not> path_exists fs d then makedirs d fs else Inr fs)"

definition generate_and_save ::
  "string \<Rightarrow> int \<Rightarrow> int list \<Rightarrow> int \<Rightarrow> filesystem \<times> rng \<Rightarrow> error + (filesystem \<times> rng)" where
  "generate_and_save type num_images case_ratio image_size st =
     (case st of (fs, g) \<Rightarrow>
      if type = ''train'' then
        bnd (generate_xf_dataset num_images case_ratio image_size g) (\<lambda>((imgs, configs), g').
        bnd (ensure_dir ''training_data'' fs) (\<lambda>fs1.
        bnd (save_all ''training_data'' xf_filename (enumerate 0 (zip imgs configs)) fs1)
          (\<lambda>fs2. Inr (fs2, g'))))
      else if type = ''test'' then
        bnd (generate_muller_lyer_dataset num_images case_ratio image_size g)
          (\<lambda>((imgs, configs), g').
        bnd (ensure_dir ''test_data'' fs) (\<lambda>fs1.
        bnd (save_all ''test_data'' ml_filename (enumerate 0 (zip imgs configs)) fs1)
          (\<lambda>fs2. Inr (fs2, g'))))
      else Inr (fs, g))"

section \<open>Notions used in the statements\<close>

text \<open>
  The parameters a generator call returns, without the images and the state of the
  random source: one record for \<^verbatim>\<open>generate_xf_image\<close> and \<^verbatim>\<open>generate_muller_lyer_image\<close>,
  the list \<^verbatim>\<open>configs\<close> for the two dataset generators.
\<close>

definition returned_params :: "error + (('i \<times> 'p) \<times> 's) \<Rightarrow> error + 'p" where
  "returned_params r = (case r of Inl e \<Rightarrow> Inl e | Inr ((imgs, ps), g) \<Rightarrow> Inr ps)"

text \<open>
  The band of a fin length: \<open>lo \<le> fin \<le> min(35, shaft / 3)\<close>. The fin length is an
  integer, so \<open>fin \<le> shaft / 3\<close> is \<open>3 * fin \<le> shaft\<close>.
\<close>

definition in_band :: "int \<Rightarrow> int \<Rightarrow> int \<Rightarrow> bool" where
  "in_band lo fin shaft \<longleftrightarrow> lo \<le> fin \<and> fin \<le> 35 \<and> 3 * fin \<le> shaft"

text \<open>
  The records whose file name the patterns are written for: a label 0 or 1, the case
  tokens of the family, and no negative number.
\<close>

definition xf_encodable :: "xf_params \<Rightarrow> bool" where
  "xf_encodable c \<longleftrightarrow>
     (label c = 0 \<or> label c = 1) \<and>
     length_case c \<in> set [''EQUAL'', ''LONG'', ''SHORT''] \<and>
     fin_case c \<in> set [''SAME_CONFIG'', ''DIFF_CONFIG''] \<and>
     0 \<le> top_length c \<and> 0 \<le> bottom_length c \<and>
     0 \<le> top_fin_length c \<and> 0 \<le> top_fin_angle_deg c \<and>
     0 \<le> bottom_fin_length c \<and> 0 \<le> bottom_fin_angle_deg c \<and>
     0 \<le> top_y c \<and> 0 \<le> bottom_y c"

definition ml_encodable :: "ml_params \<Rightarrow> bool" where
  "ml_encodable c \<longleftrightarrow>
     (ml_label c = 0 \<or> ml_label c = 1) \<and>
     top_dir_case c \<in> set [''LONG'', ''SHORT''] \<and>
     bottom_dir_case c \<in> set [''DIFF_DIR'', ''SAME_DIR''] \<and>
     ml_fin_case c \<in> set [''SAME_CONFIG'', ''DIFF_CONFIG''] \<and>
     0 \<le> shaft_length c \<and>
     0 \<le> ml_top_fin_length c \<and> 0 \<le> ml_top_fin_angle_deg c \<and>
     0 \<le> ml_bottom_fin_length c \<and> 0 \<le> ml_bottom_fin_angle_deg c \<and>
     0 \<le> ml_top_y c \<and> 0 \<le> ml_bottom_y c"

section \<open>The draws behind a sampled record\<close>

text \<open>
  A call of a generator that returns has made its draws in the order of the source; the
  two lemmas below name them, with the state of the random source between them.
\<close>

lemma bnd_Inl [simp]: "bnd (Inl e) f = Inl e"
  by (simp add: bnd_def)
lemma bnd_Inr [simp]: "bnd (Inr x) f = f x"
  by (simp add: bnd_def)

lemma bnd_eq_Inr: "bnd m f = Inr y \<longleftrightarrow> (\<exists>x. m = Inr x \<and> f x = Inr y)"
  by (cases m) simp_all

lemma randint_range:
  assumes "randint a b g = Inr (x, g')"
  shows "a \<le> x \<and> x \<le> b \<and> g' = stl g"
proof -
  from assms have ab: "a \<le> b" and x: "x = a + int (shd g) mod (b - a + 1)" and g: "g' = stl g"
    by (auto simp: randint_def split: if_splits)
  have "0 \<le> int (shd g) mod (b - a + 1)" using ab by simp
  moreover have "int (shd g) mod (b - a + 1) < b - a + 1" using ab by (intro pos_mod_bound) simp
  ultimately show ?thesis using x g by simp
qed

lemma generate_xf_image_Inr:
  assumes "generate_xf_image lbl lc fc sz g = Inr ((img, p), g')"
  shows "\<exists>g2 g5 g7.
     (\<exists>g1. randint (sz div 5) (sz div 5 * 2) g = Inr (top_y p, g1) \<and>
           randint (sz div 5 * 3) (sz div 5 * 4) g1 = Inr (bottom_y p, g2)) \<and>
     label p = lbl \<and> fin_case p = fc \<and>
     ((lbl = 1 \<and> lc = ''LONG'' \<and> length_case p = ''LONG'' \<and>
         (\<exists>g3 delta. randint 45 (int_times_08 sz) g2 = Inr (top_length p, g3) \<and>
                     randint 2 62 g3 = Inr (delta, g5) \<and>
                     bottom_length p = max 45 (top_length p - delta))) \<or>
      (lbl = 1 \<and> lc = ''SHORT'' \<and> length_case p = ''SHORT'' \<and>
         (\<exists>g3 delta. randint 45 (int_times_08 sz) g2 = Inr (bottom_length p, g3) \<and>
                     randint 2 62 g3 = Inr (delta, g5) \<and>
                     top_length p = max 45 (bottom_length p - delta))) \<or>
      (lbl \<noteq> 1 \<and> length_case p = ''EQUAL'' \<and> bottom_length p = top_length p \<and>
         randint 45 (int_times_08 sz) g2 = Inr (top_length p, g5))) \<and>
     (\<exists>g6. randint 10 (min 35 (top_length p div 3)) g5 = Inr (top_fin_length p, g6) \<and>
           randint 15 75 g6 = Inr (top_fin_angle_deg p, g7)) \<and>
     ((fc = ''SAME_CONFIG'' \<and> bottom_fin_length p = top_fin_length p \<and>
         bottom_fin_angle_deg p = top_fin_angle_deg p \<and> g' = g7) \<or>
      (fc \<noteq> ''SAME_CONFIG'' \<and>
         (\<exists>g8. randint 10 (min 35 (bottom_length p div 3)) g7 = Inr (bottom_fin_length p, g8) \<and>
               randint 15 75 g8 = Inr (bottom_fin_angle_deg p, g'))))"
proof -
  from assms obtain ty g1 by' g2 lc' tl bl g5 tfl g6 tfa g7 bfl bfa where
    ty: "randint (sz div 5) (sz div 5 * 2) g = Inr (ty, g1)" and
    by': "randint (sz div 5 * 3) (sz div 5 * 4) g1 = Inr (by', g2)" and
    shafts: "(if lbl = 1 then
            (if lc = ''LONG'' then
               bnd (randint 45 (int_times_08 sz) g2) (\<lambda>(top_length', g3).
               bnd (randint 2 62 g3) (\<lambda>(delta, g4).
               Inr ((lc, top_length', max 45 (top_length' - delta)), g4)))
             else if lc = ''SHORT'' then
               bnd (randint 45 (int_times_08 sz) g2) (\<lambda>(bottom_length', g3).
               bnd (randint 2 62 g3) (\<lambda>(delta, g4).
               Inr ((lc, max 45 (bottom_length' - delta), bottom_length'), g4)))
             else Inl UnboundLocalError)
          else
            bnd (randint 45 (int_times_08 sz) g2) (\<lambda>(top_length', g3).
            Inr ((''EQUAL'', top_length', top_length'), g3))) = Inr ((lc', tl, bl), g5)" and
    tfl: "randint 10 (min 35 (tl div 3)) g5 = Inr (tfl, g6)" and
    tfa: "randint 15 75 g6 = Inr (tfa, g7)" and
    bot: "(if fc = ''SAME_CONFIG'' then Inr ((tfl, tfa), g7)
          else
            bnd (randint 10 (min 35 (bl div 3)) g7) (\<lambda>(bottom_fin_length', g8).
            bnd (randint 15 75 g8) (\<lambda>(bottom_fin_angle_deg', g9).
            Inr ((bottom_fin_length', bottom_fin_angle_deg'), g9)))) = Inr ((bfl, bfa), g')" and
    p: "p = \<lparr>label = lbl, length_case = lc', fin_case = fc,
                   top_length = tl, bottom_length = bl,
                   top_fin_length = tfl, top_fin_angle_deg = tfa,
                   bottom_fin_length = bfl,
                   bottom_fin_angle_deg = bfa,
                   top_y = ty, bottom_y = by'\<rparr>"
    apply (simp only: generate_xf_image_def Let_def bnd_eq_Inr split_paired_Ex prod.case)
    apply (elim exE conjE)
    apply (simp only: sum.inject prod.inject)
    done
  have S: "(lbl = 1 \<and> lc = ''LONG'' \<and> lc' = ''LONG'' \<and>
         (\<exists>g3 delta. randint 45 (int_times_08 sz) g2 = Inr (tl, g3) \<and>
                     randint 2 62 g3 = Inr (delta, g5) \<and> bl = max 45 (tl - delta))) \<or>
      (lbl = 1 \<and> lc = ''SHORT'' \<and> lc' = ''SHORT'' \<and>
         (\<exists>g3 delta. randint 45 (int_times_08 sz) g2 = Inr (bl, g3) \<and>
                     randint 2 62 g3 = Inr (delta, g5) \<and> tl = max 45 (bl - delta))) \<or>
      (lbl \<noteq> 1 \<and> lc' = ''EQUAL'' \<and> bl = tl \<and> randint 45 (int_times_08 sz) g2 = Inr (tl, g5))"
    using shafts by (auto simp: bnd_eq_Inr split: if_splits)
  have B: "(fc = ''SAME_CONFIG'' \<and> bfl = tfl \<and> bfa = tfa \<and> g' = g7) \<or>
      (fc \<noteq> ''SAME_CONFIG'' \<and>
         (\<exists>g8. randint 10 (min 35 (bl div 3)) g7 = Inr (bfl, g8) \<and> randint 15 75 g8 = Inr (bfa, g')))"
    using bot by (auto simp: bnd_eq_Inr split: if_splits)
  show ?thesis
    apply (rule exI[of _ g2], rule exI[of _ g5], rule exI[of _ g7])
    using ty by' tfl tfa S B unfolding p by simp
qed

lemma returned_params_Inr:
  "returned_params r = Inr ps \<longleftrightarrow> (\<exists>imgs g. r = Inr ((imgs, ps), g))"
  by (auto simp: returned_params_def split: sum.splits prod.splits)

lemma generate_muller_lyer_image_Inr:
  assumes "generate_muller_lyer_image td bd fc sz g = Inr ((img, p), g')"
  shows "\<exists>g2 g3 g5.
     (\<exists>g1. randint (sz div 5) (sz div 5 * 2) g = Inr (ml_top_y p, g1) \<and>
           randint (sz div 5 * 3) (sz div 5 * 4) g1 = Inr (ml_bottom_y p, g2)) \<and>
     ml_label p = 0 \<and> top_dir_case p = td \<and> bottom_dir_case p = bd \<and> ml_fin_case p = fc \<and>
     randint 45 (int_times_08 sz) g2 = Inr (shaft_length p, g3) \<and>
     (\<exists>g4. randint 15 (min 35 (shaft_length p div 3)) g3 = Inr (ml_top_fin_length p, g4) \<and>
           randint 15 75 g4 = Inr (ml_top_fin_angle_deg p, g5)) \<and>
     ((fc = ''SAME_CONFIG'' \<and> ml_bottom_fin_length p = ml_top_fin_length p \<and>
         ml_bottom_fin_angle_deg p = ml_top_fin_angle_deg p \<and> g' = g5) \<or>
      (fc \<noteq> ''SAME_CONFIG'' \<and>
         (\<exists>g6. randint 15 (min 35 (shaft_length p div 3)) g5 = Inr (ml_bottom_fin_length p, g6) \<and>
               randint 15 75 g6 = Inr (ml_bottom_fin_angle_deg p, g'))))"
proof -
  from assms obtain ty g1 by' g2 sl g3 tfl g4 tfa g5 bfl bfa where
    ty: "randint (sz div 5) (sz div 5 * 2) g = Inr (ty, g1)" and
    by': "randint (sz div 5 * 3) (sz div 5 * 4) g1 = Inr (by', g2)" and
    sl: "randint 45 (int_times_08 sz) g2 = Inr (sl, g3)" and
    tfl: "randint 15 (min 35 (sl div 3)) g3 = Inr (tfl, g4)" and
    tfa: "randint 15 75 g4 = Inr (tfa, g5)" and
    bot: "(if fc = ''SAME_CONFIG'' then Inr ((tfl, tfa), g5)
          else
            bnd (randint 15 (min 35 (sl div 3)) g5) (\<lambda>(bottom_fin_length', g6).
            bnd (randint 15 75 g6) (\<lambda>(bottom_fin_angle_deg', g7).
            Inr ((bottom_fin_length', bottom_fin_angle_deg'), g7)))) = Inr ((bfl, bfa), g')" and
    p: "p = \<lparr>ml_label = 0, top_dir_case = td, bottom_dir_case = bd, ml_fin_case = fc,
             shaft_length = sl, ml_top_fin_length = tfl, ml_top_fin_angle_deg = tfa,
             ml_bottom_fin_length = bfl, ml_bottom_fin_angle_deg = bfa,
             ml_top_y = ty, ml_bottom_y = by'\<rparr>"
    apply (simp only: generate_muller_lyer_image_def Let_def bnd_eq_Inr split_paired_Ex prod.case)
    apply (elim exE conjE)
    apply (simp only: sum.inject prod.inject)
    done
  have B: "(fc = ''SAME_CONFIG'' \<and> bfl = tfl \<and> bfa = tfa \<and> g' = g5) \<or>
      (fc \<noteq> ''SAME_CONFIG'' \<and>
         (\<exists>g6. randint 15 (min 35 (sl div 3)) g5 = Inr (bfl, g6) \<and> randint 15 75 g6 = Inr (bfa, g')))"
    using bot by (auto simp: bnd_eq_Inr split: if_splits)
  show ?thesis
    apply (rule exI[of _ g2], rule exI[of _ g3], rule exI[of _ g5])
    using ty by' sl tfl tfa B unfolding p by simp
qed

lemmas eval_defs = returned_params_def generate_xf_image_def generate_muller_lyer_image_def
  randint_def int_times_08_def Let_def

section \<open>Fin lengths and angles\<close>

lemma xf_fin_facts:
  assumes "returned_params (generate_xf_image lbl lc fc sz g) = Inr p"
  shows "in_band 10 (top_fin_length p) (top_length p)"
    and "fin_case p = ''SAME_CONFIG'' \<Longrightarrow>
           bottom_fin_length p = top_fin_length p \<and> bottom_fin_angle_deg p = top_fin_angle_deg p"
    and "fin_case p \<noteq> ''SAME_CONFIG'' \<Longrightarrow> in_band 10 (bottom_fin_length p) (bottom_length p)"
proof -
  from assms obtain img g' where r: "generate_xf_image lbl lc fc sz g = Inr ((img, p), g')"
    by (auto simp: returned_params_Inr)
  from generate_xf_image_Inr[OF r] obtain g5 g6 g7 where
    fc: "fin_case p = fc" and
    t: "randint 10 (min 35 (top_length p div 3)) g5 = Inr (top_fin_length p, g6)" and
    b: "(fc = ''SAME_CONFIG'' \<and> bottom_fin_length p = top_fin_length p \<and>
         bottom_fin_angle_deg p = top_fin_angle_deg p \<and> g' = g7) \<or>
      (fc \<noteq> ''SAME_CONFIG'' \<and>
         (\<exists>g8. randint 10 (min 35 (bottom_length p div 3)) g7 = Inr (bottom_fin_length p, g8) \<and>
               randint 15 75 g8 = Inr (bottom_fin_angle_deg p, g')))"
    by blast
  from randint_range[OF t] show "in_band 10 (top_fin_length p) (top_length p)"
    by (simp add: in_band_def) linarith
  show "fin_case p = ''SAME_CONFIG'' \<Longrightarrow>
           bottom_fin_length p = top_fin_length p \<and> bottom_fin_angle_deg p = top_fin_angle_deg p"
    using b fc by auto
  show "fin_case p \<noteq> ''SAME_CONFIG'' \<Longrightarrow> in_band 10 (bottom_fin_length p) (bottom_length p)"
  proof -
    assume "fin_case p \<noteq> ''SAME_CONFIG''"
    with b fc obtain g8 where
      "randint 10 (min 35 (bottom_length p div 3)) g7 = Inr (bottom_fin_length p, g8)" by auto
    from randint_range[OF this] show ?thesis by (simp add: in_band_def) linarith
  qed
qed

lemma ml_fin_facts:
  assumes "returned_params (generate_muller_lyer_image td bd fc sz g) = Inr p"
  shows "in_band 15 (ml_top_fin_length p) (shaft_length p)"
    and "in_band 15 (ml_bottom_fin_length p) (shaft_length p)"
    and "ml_fin_case p = ''SAME_CONFIG'' \<Longrightarrow>
           ml_bottom_fin_length p = ml_top_fin_length p \<and>
           ml_bottom_fin_angle_deg p = ml_top_fin_angle_deg p"
proof -
  from assms obtain img g' where
    r: "generate_muller_lyer_image td bd fc sz g = Inr ((img, p), g')"
    by (auto simp: returned_params_Inr)
  from generate_muller_lyer_image_Inr[OF r] obtain g3 g4 g5 where
    fc: "ml_fin_case p = fc" and
    t: "randint 15 (min 35 (shaft_length p div 3)) g3 = Inr (ml_top_fin_length p, g4)" and
    b: "(fc = ''SAME_CONFIG'' \<and> ml_bottom_fin_length p = ml_top_fin_length p \<and>
         ml_bottom_fin_angle_deg p = ml_top_fin_angle_deg p \<and> g' = g5) \<or>
      (fc \<noteq> ''SAME_CONFIG'' \<and>
         (\<exists>g6. randint 15 (min 35 (shaft_length p div 3)) g5 = Inr (ml_bottom_fin_length p, g6) \<and>
               randint 15 75 g6 = Inr (ml_bottom_fin_angle_deg p, g')))"
    by blast
  from randint_range[OF t] show T: "in_band 15 (ml_top_fin_length p) (shaft_length p)"
    by (simp add: in_band_def) linarith
  show "ml_fin_case p = ''SAME_CONFIG'' \<Longrightarrow>
           ml_bottom_fin_length p = ml_top_fin_length p \<and>
           ml_bottom_fin_angle_deg p = ml_top_fin_angle_deg p"
    using b fc by auto
  from b show "in_band 15 (ml_bottom_fin_length p) (shaft_length p)"
  proof
    assume "fc = ''SAME_CONFIG'' \<and> ml_bottom_fin_length p = ml_top_fin_length p \<and>
         ml_bottom_fin_angle_deg p = ml_top_fin_angle_deg p \<and> g' = g5"
    with T show ?thesis by simp
  next
    assume "fc \<noteq> ''SAME_CONFIG'' \<and>
         (\<exists>g6. randint 15 (min 35 (shaft_length p div 3)) g5 = Inr (ml_bottom_fin_length p, g6) \<and>
               randint 15 75 g6 = Inr (ml_bottom_fin_angle_deg p, g'))"
    then obtain g6 where
      "randint 15 (min 35 (shaft_length p div 3)) g5 = Inr (ml_bottom_fin_length p, g6)" by blast
    from randint_range[OF this] show ?thesis by (simp add: in_band_def) linarith
  qed
qed

text \<open>
  Claim C6. In every record sampled for either family, \<^verbatim>\<open>fin_case = SAME_CONFIG\<close> implies
  that the bottom fin length and angle equal the top ones: the bottom ornament is a copy
  of the top's.
\<close>

theorem same_config_copies_top:
  "(returned_params (generate_xf_image lbl lc fc sz g) = Inr p \<longrightarrow>
      fin_case p = ''SAME_CONFIG'' \<longrightarrow>
      top_fin_length p = bottom_fin_length p \<and> top_fin_angle_deg p = bottom_fin_angle_deg p) \<and>
   (returned_params (generate_muller_lyer_image td bd fc' sz' g') = Inr q \<longrightarrow>
      ml_fin_case q = ''SAME_CONFIG'' \<longrightarrow>
      ml_top_fin_length q = ml_bottom_fin_length q \<and>
      ml_top_fin_angle_deg q = ml_bottom_fin_angle_deg q)"
  using xf_fin_facts(2)[of lbl lc fc sz g p] ml_fin_facts(3)[of td bd fc' sz' g' q]
  by auto

theorem same_config_copies_top_witness:
  "returned_params (generate_xf_image 1 ''LONG'' ''SAME_CONFIG'' 256 ([9, 9, 60, 58, 25, 30] @- sconst 0))
     = Inr \<lparr>label = 1, length_case = ''LONG'', fin_case = ''SAME_CONFIG'',
             top_length = 105, bottom_length = 45, top_fin_length = 35,
             top_fin_angle_deg = 45, bottom_fin_length = 35,
             bottom_fin_angle_deg = 45, top_y = 60, bottom_y = 162\<rparr> \<and>
   returned_params (generate_muller_lyer_image ''LONG'' ''DIFF_DIR'' ''SAME_CONFIG'' 256 ([9, 9, 60, 3, 30] @- sconst 0))
     = Inr \<lparr>ml_label = 0, top_dir_case = ''LONG'', bottom_dir_case = ''DIFF_DIR'',
             ml_fin_case = ''SAME_CONFIG'', shaft_length = 105, ml_top_fin_length = 18,
             ml_top_fin_angle_deg = 45, ml_bottom_fin_length = 18,
             ml_bottom_fin_angle_deg = 45, ml_top_y = 60, ml_bottom_y = 162\<rparr>"
  using same_config_copies_top
    [of 1 "''LONG''" "''SAME_CONFIG''" 256 "[9, 9, 60, 58, 25, 30] @- sconst 0"
        "\<lparr>label = 1, length_case = ''LONG'', fin_case = ''SAME_CONFIG'',
             top_length = 105, bottom_length = 45, top_fin_length = 35,
             top_fin_angle_deg = 45, bottom_fin_length = 35,
             bottom_fin_angle_deg = 45, top_y = 60, bottom_y = 162\<rparr>"
        "''LONG''" "''DIFF_DIR''" "''SAME_CONFIG''" 256 "[9, 9, 60, 3, 30] @- sconst 0"
        "\<lparr>ml_label = 0, top_dir_case = ''LONG'', bottom_dir_case = ''DIFF_DIR'',
             ml_fin_case = ''SAME_CONFIG'', shaft_length = 105, ml_top_fin_length = 18,
             ml_top_fin_angle_deg = 45, ml_bottom_fin_length = 18,
             ml_bottom_fin_angle_deg = 45, ml_top_y = 60, ml_bottom_y = 162\<rparr>"]
  by (simp add: eval_defs)

section \<open>Shaft lengths of a Cross-Fin record\<close>

lemma xf_shaft_facts:
  assumes "returned_params (generate_xf_image lbl lc fc sz g) = Inr p"
  shows "label p = lbl \<and> fin_case p = fc"
    and "lbl = 1 \<Longrightarrow>
      (lc = ''LONG'' \<and> length_case p = ''LONG'' \<and>
         (\<exists>g3 g4 delta. randint 45 (int_times_08 sz) (stl (stl g)) = Inr (top_length p, g3) \<and>
                     randint 2 62 g3 = Inr (delta, g4) \<and>
                     bottom_length p = max 45 (top_length p - delta))) \<or>
      (lc = ''SHORT'' \<and> length_case p = ''SHORT'' \<and>
         (\<exists>g3 g4 delta. randint 45 (int_times_08 sz) (stl (stl g)) = Inr (bottom_length p, g3) \<and>
                     randint 2 62 g3 = Inr (delta, g4) \<and>
                     top_length p = max 45 (bottom_length p - delta)))"
    and "lbl \<noteq> 1 \<Longrightarrow> length_case p = ''EQUAL'' \<and> bottom_length p = top_length p \<and>
         (\<exists>g3. randint 45 (int_times_08 sz) (stl (stl g)) = Inr (top_length p, g3))"
proof -
  from assms obtain img g' where r: "generate_xf_image lbl lc fc sz g = Inr ((img, p), g')"
    by (auto simp: returned_params_Inr)
  from generate_xf_image_Inr[OF r] obtain g1 g2 g5 where
    y1: "randint (sz div 5) (sz div 5 * 2) g = Inr (top_y p, g1)" and
    y2: "randint (sz div 5 * 3) (sz div 5 * 4) g1 = Inr (bottom_y p, g2)" and
    l: "label p = lbl" "fin_case p = fc" and
    s: "(lbl = 1 \<and> lc = ''LONG'' \<and> length_case p = ''LONG'' \<and>
         (\<exists>g3 delta. randint 45 (int_times_08 sz) g2 = Inr (top_length p, g3) \<and>
                     randint 2 62 g3 = Inr (delta, g5) \<and>
                     bottom_length p = max 45 (top_length p - delta))) \<or>
      (lbl = 1 \<and> lc = ''SHORT'' \<and> length_case p = ''SHORT'' \<and>
         (\<exists>g3 delta. randint 45 (int_times_08 sz) g2 = Inr (bottom_length p, g3) \<and>
                     randint 2 62 g3 = Inr (delta, g5) \<and>
                     top_length p = max 45 (bottom_length p - delta))) \<or>
      (lbl \<noteq> 1 \<and> length_case p = ''EQUAL'' \<and> bottom_length p = top_length p \<and>
         randint 45 (int_times_08 sz) g2 = Inr (top_length p, g5))"
    by blast
  from randint_range[OF y1] randint_range[OF y2] have g2: "g2 = stl (stl g)" by simp
  from l show "label p = lbl \<and> fin_case p = fc" by simp
  show "lbl = 1 \<Longrightarrow>
      (lc = ''LONG'' \<and> length_case p = ''LONG'' \<and>
         (\<exists>g3 g4 delta. randint 45 (int_times_08 sz) (stl (stl g)) = Inr (top_length p, g3) \<and>
                     randint 2 62 g3 = Inr (delta, g4) \<and>
                     bottom_length p = max 45 (top_length p - delta))) \<or>
      (lc = ''SHORT'' \<and> length_case p = ''SHORT'' \<and>
         (\<exists>g3 g4 delta. randint 45 (int_times_08 sz) (stl (stl g)) = Inr (bottom_length p, g3) \<and>
                     randint 2 62 g3 = Inr (delta, g4) \<and>
                     top_length p = max 45 (bottom_length p - delta)))"
    using s unfolding g2 by blast
  show "lbl \<noteq> 1 \<Longrightarrow> length_case p = ''EQUAL'' \<and> bottom_length p = top_length p \<and>
         (\<exists>g3. randint 45 (int_times_08 sz) (stl (stl g)) = Inr (top_length p, g3))"
    using s unfolding g2 by blast
qed

lemma clamp_below:
  fixes a d :: int
  assumes "2 \<le> d" and "b = max 45 (a - d)"
  shows "(45 \<le> a - d \<longrightarrow> b < a) \<and> (a = b \<longrightarrow> a = 45 \<and> b = 45)"
  using assms by (simp add: max_def split: if_splits)

text \<open>
  Claim C4. For a Cross-Fin sample with label 1, the primary shaft (top for \<^verbatim>\<open>LONG\<close>, bottom
  for \<^verbatim>\<open>SHORT\<close>) is the draw \<^verbatim>\<open>random.randint(45, int(image_size*0.8))\<close> made right after
  the two vertical positions, the other shaft is \<open>max 45 (primary - delta)\<close> for the next
  draw \<open>delta\<close> of \<open>[2, 62]\<close>, and when the floor is not hit (\<open>45 \<le> primary - delta\<close>)
  the primary shaft is strictly longer. That the draw is uniform is \<^verbatim>\<open>randint\<close>'s own
  contract.
\<close>

theorem primary_shaft_and_clamp:
  assumes "returned_params (generate_xf_image 1 lc fc sz g) = Inr p"
  shows "\<exists>primary other delta g3 g4.
     ((lc = ''LONG'' \<and> primary = top_length p \<and> other = bottom_length p) \<or>
      (lc = ''SHORT'' \<and> primary = bottom_length p \<and> other = top_length p)) \<and>
     length_case p = lc \<and>
     randint 45 (int_times_08 sz) (stl (stl g)) = Inr (primary, g3) \<and>
     randint 2 62 g3 = Inr (delta, g4) \<and>
     45 \<le> primary \<and> primary \<le> int_times_08 sz \<and> 2 \<le> delta \<and> delta \<le> 62 \<and>
     other = max 45 (primary - delta) \<and>
     (45 \<le> primary - delta \<longrightarrow> other < primary)"
proof -
  from xf_shaft_facts(2)[OF assms] have
    "(lc = ''LONG'' \<and> length_case p = ''LONG'' \<and>
         (\<exists>g3 g4 delta. randint 45 (int_times_08 sz) (stl (stl g)) = Inr (top_length p, g3) \<and>
                     randint 2 62 g3 = Inr (delta, g4) \<and>
                     bottom_length p = max 45 (top_length p - delta))) \<or>
      (lc = ''SHORT'' \<and> length_case p = ''SHORT'' \<and>
         (\<exists>g3 g4 delta. randint 45 (int_times_08 sz) (stl (stl g)) = Inr (bottom_length p, g3) \<and>
                     randint 2 62 g3 = Inr (delta, g4) \<and>
                     top_length p = max 45 (bottom_length p - delta)))"
    by simp
  then show ?thesis
  proof (elim disjE conjE exE)
    fix g3 g4 delta
    assume c: "lc = ''LONG''" "length_case p = ''LONG''"
      and d1: "randint 45 (int_times_08 sz) (stl (stl g)) = Inr (top_length p, g3)"
      and d2: "randint 2 62 g3 = Inr (delta, g4)"
      and m: "bottom_length p = max 45 (top_length p - delta)"
    from randint_range[OF d1] randint_range[OF d2]
    have b: "45 \<le> top_length p" "top_length p \<le> int_times_08 sz" "2 \<le> delta" "delta \<le> 62"
      by simp_all
    from clamp_below[OF b(3) m] have lt: "45 \<le> top_length p - delta \<longrightarrow> bottom_length p < top_length p"
      by blast
    show ?thesis
      apply (rule exI[of _ "top_length p"], rule exI[of _ "bottom_length p"])
      apply (rule exI[of _ delta], rule exI[of _ g3], rule exI[of _ g4])
      using c d1 d2 m b lt by blast
  next
    fix g3 g4 delta
    assume c: "lc = ''SHORT''" "length_case p = ''SHORT''"
      and d1: "randint 45 (int_times_08 sz) (stl (stl g)) = Inr (bottom_length p, g3)"
      and d2: "randint 2 62 g3 = Inr (delta, g4)"
      and m: "top_length p = max 45 (bottom_length p - delta)"
    from randint_range[OF d1] randint_range[OF d2]
    have b: "45 \<le> bottom_length p" "bottom_length p \<le> int_times_08 sz" "2 \<le> delta" "delta \<le> 62"
      by simp_all
    from clamp_below[OF b(3) m] have lt: "45 \<le> bottom_length p - delta \<longrightarrow> top_length p < bottom_length p"
      by blast
    show ?thesis
      apply (rule exI[of _ "bottom_length p"], rule exI[of _ "top_length p"])
      apply (rule exI[of _ delta], rule exI[of _ g3], rule exI[of _ g4])
      using c d1 d2 m b lt by blast
  qed
qed

theorem primary_shaft_and_clamp_witness:
  "returned_params (generate_xf_image 1 ''LONG'' ''SAME_CONFIG'' 256 ([9, 9, 60, 58, 25, 30] @- sconst 0))
     = Inr \<lparr>label = 1, length_case = ''LONG'', fin_case = ''SAME_CONFIG'',
             top_length = 105, bottom_length = 45, top_fin_length = 35,
             top_fin_angle_deg = 45, bottom_fin_length = 35,
             bottom_fin_angle_deg = 45, top_y = 60, bottom_y = 162\<rparr> \<and>
   (\<exists>delta g3 g4.
      randint 45 (int_times_08 256) (stl (stl ([9, 9, 60, 58, 25, 30] @- sconst 0))) = Inr (105, g3) \<and>
      randint 2 62 g3 = Inr (delta, g4) \<and> 2 \<le> delta \<and> delta \<le> 62 \<and>
      (45::int) = max 45 (105 - delta) \<and> (45 \<le> 105 - delta \<longrightarrow> (45::int) < 105))"
  using primary_shaft_and_clamp
    [of "''LONG''" "''SAME_CONFIG''" 256 "[9, 9, 60, 58, 25, 30] @- sconst 0"
        "\<lparr>label = 1, length_case = ''LONG'', fin_case = ''SAME_CONFIG'',
             top_length = 105, bottom_length = 45, top_fin_length = 35,
             top_fin_angle_deg = 45, bottom_fin_length = 35,
             bottom_fin_angle_deg = 45, top_y = 60, bottom_y = 162\<rparr>"]
  by (simp add: eval_defs)

text \<open>
  Claim C5, as amended. For a Cross-Fin record sampled with a label 0 or 1: the label is 0
  exactly when the length case is \<^verbatim>\<open>EQUAL\<close>; a label 0 gives two shafts of the same length;
  a label 1 gives the length case \<^verbatim>\<open>LONG\<close> or \<^verbatim>\<open>SHORT\<close>, and its two shafts have the same
  length only when the floor of the clamp was hit, both being 45.
\<close>

theorem label_length_case_shape:
  assumes "returned_params (generate_xf_image lbl lc fc sz g) = Inr p"
    and "lbl = 0 \<or> lbl = 1"
  shows "(label p = 0 \<longleftrightarrow> length_case p = ''EQUAL'') \<and>
     (label p = 0 \<longrightarrow> top_length p = bottom_length p) \<and>
     (label p = 1 \<longrightarrow>
        (length_case p = ''LONG'' \<or> length_case p = ''SHORT'') \<and>
        (top_length p = bottom_length p \<longrightarrow> top_length p = 45 \<and> bottom_length p = 45))"
proof (cases "lbl = 1")
  case False
  with assms(2) have z: "lbl = 0" by simp
  from xf_shaft_facts(1)[OF assms(1)] xf_shaft_facts(3)[OF assms(1) False] z
  show ?thesis by simp
next
  case True
  have ne: "''LONG'' \<noteq> ''EQUAL''" "''SHORT'' \<noteq> ''EQUAL''" by simp_all
  from xf_shaft_facts(1)[OF assms(1)] True have l: "label p = 1" by simp
  from xf_shaft_facts(2)[OF assms(1) True]
  have "(length_case p = ''LONG'' \<or> length_case p = ''SHORT'') \<and>
        (top_length p = bottom_length p \<longrightarrow> top_length p = 45 \<and> bottom_length p = 45)"
  proof (elim disjE conjE exE)
    fix g3 g4 delta
    assume c: "length_case p = ''LONG''"
      and d2: "randint 2 62 g3 = Inr (delta, g4)"
      and m: "bottom_length p = max 45 (top_length p - delta)"
    from randint_range[OF d2] have "2 \<le> delta" by simp
    from clamp_below[OF this m] c show ?thesis by blast
  next
    fix g3 g4 delta
    assume c: "length_case p = ''SHORT''"
      and d2: "randint 2 62 g3 = Inr (delta, g4)"
      and m: "top_length p = max 45 (bottom_length p - delta)"
    from randint_range[OF d2] have "2 \<le> delta" by simp
    from clamp_below[OF this m] c show ?thesis by metis
  qed
  with l ne show ?thesis by (metis zero_neq_one)
qed

theorem label_length_case_shape_witness:
  "returned_params (generate_xf_image 1 ''LONG'' ''SAME_CONFIG'' 256 (sconst 0))
     = Inr \<lparr>label = 1, length_case = ''LONG'', fin_case = ''SAME_CONFIG'',
             top_length = 45, bottom_length = 45, top_fin_length = 10,
             top_fin_angle_deg = 15, bottom_fin_length = 10,
             bottom_fin_angle_deg = 15, top_y = 51, bottom_y = 153\<rparr> \<and>
   ((1::int) = 0 \<or> (1::int) = 1) \<and>
   returned_params (generate_xf_image 0 ''EQUAL'' ''DIFF_CONFIG'' 256 ([9, 9, 60, 25, 30, 3, 7] @- sconst 0))
     = Inr \<lparr>label = 0, length_case = ''EQUAL'', fin_case = ''DIFF_CONFIG'',
             top_length = 105, bottom_length = 105, top_fin_length = 35,
             top_fin_angle_deg = 45, bottom_fin_length = 13,
             bottom_fin_angle_deg = 22, top_y = 60, bottom_y = 162\<rparr> \<and>
   ((0::int) = 0 \<or> (0::int) = 1)"
  using label_length_case_shape
    [of 1 "''LONG''" "''SAME_CONFIG''" 256 "sconst 0"
        "\<lparr>label = 1, length_case = ''LONG'', fin_case = ''SAME_CONFIG'',
             top_length = 45, bottom_length = 45, top_fin_length = 10,
             top_fin_angle_deg = 15, bottom_fin_length = 10,
             bottom_fin_angle_deg = 15, top_y = 51, bottom_y = 153\<rparr>"]
    label_length_case_shape
    [of 0 "''EQUAL''" "''DIFF_CONFIG''" 256 "[9, 9, 60, 25, 30, 3, 7] @- sconst 0"
        "\<lparr>label = 0, length_case = ''EQUAL'', fin_case = ''DIFF_CONFIG'',
             top_length = 105, bottom_length = 105, top_fin_length = 35,
             top_fin_angle_deg = 45, bottom_fin_length = 13,
             bottom_fin_angle_deg = 22, top_y = 60, bottom_y = 162\<rparr>"]
  by (simp add: eval_defs)

text \<open>
  The claim as stated, with \<open>top_length = bottom_length\<close> equivalent to label 0, fails on
  a label-1 record whose primary shaft is drawn at the floor: the other shaft is clamped
  to the same 45.
\<close>

theorem label_shape_counterexample:
  "returned_params (generate_xf_image 1 ''LONG'' ''SAME_CONFIG'' 256 (sconst 0))
     = Inr \<lparr>label = 1, length_case = ''LONG'', fin_case = ''SAME_CONFIG'',
             top_length = 45, bottom_length = 45, top_fin_length = 10,
             top_fin_angle_deg = 15, bottom_fin_length = 10,
             bottom_fin_angle_deg = 15, top_y = 51, bottom_y = 153\<rparr> \<and>
   \<not> (label \<lparr>label = 1, length_case = ''LONG'', fin_case = ''SAME_CONFIG'',
             top_length = 45, bottom_length = 45, top_fin_length = 10,
             top_fin_angle_deg = 15, bottom_fin_length = 10,
             bottom_fin_angle_deg = 15, top_y = 51, bottom_y = 153\<rparr> = 0
       \<longleftrightarrow> top_length \<lparr>label = 1, length_case = ''LONG'', fin_case = ''SAME_CONFIG'',
             top_length = 45, bottom_length = 45, top_fin_length = 10,
             top_fin_angle_deg = 15, bottom_fin_length = 10,
             bottom_fin_angle_deg = 15, top_y = 51, bottom_y = 153\<rparr>
         = bottom_length \<lparr>label = 1, length_case = ''LONG'', fin_case = ''SAME_CONFIG'',
             top_length = 45, bottom_length = 45, top_fin_length = 10,
             top_fin_angle_deg = 15, bottom_fin_length = 10,
             bottom_fin_angle_deg = 15, top_y = 51, bottom_y = 153\<rparr>)"
  by (simp add: eval_defs)

section \<open>The band of the fin lengths\<close>

lemma in_band_mono: "in_band lo f s \<Longrightarrow> s \<le> s' \<Longrightarrow> in_band lo f s'"
  by (simp add: in_band_def)

text \<open>
  Claim C2, as amended. In every sampled record the top fin length lies in the band
  \<open>[lo, min(35, shaft / 3)]\<close> of the top shaft (\<open>lo\<close> 10 for Cross-Fin, 15 for
  M\"uller-Lyer). The bottom fin length lies in the band of the bottom shaft when the fin
  case is not \<^verbatim>\<open>SAME_CONFIG\<close>; under \<^verbatim>\<open>SAME_CONFIG\<close> it is the top fin length, which lies in
  the band of the top shaft, and so in the band of the bottom shaft whenever the top
  shaft is not the longer one. Both M\"uller-Lyer fins share one shaft and lie in its band.
\<close>

theorem fin_lengths_in_band:
  "(returned_params (generate_xf_image lbl lc fc sz g) = Inr p \<longrightarrow>
      in_band 10 (top_fin_length p) (top_length p) \<and>
      (fin_case p \<noteq> ''SAME_CONFIG'' \<longrightarrow> in_band 10 (bottom_fin_length p) (bottom_length p)) \<and>
      (fin_case p = ''SAME_CONFIG'' \<longrightarrow>
         bottom_fin_length p = top_fin_length p \<and>
         in_band 10 (bottom_fin_length p) (top_length p) \<and>
         (top_length p \<le> bottom_length p \<longrightarrow>
            in_band 10 (bottom_fin_length p) (bottom_length p)))) \<and>
   (returned_params (generate_muller_lyer_image td bd fc' sz' g') = Inr q \<longrightarrow>
      in_band 15 (ml_top_fin_length q) (shaft_length q) \<and>
      in_band 15 (ml_bottom_fin_length q) (shaft_length q))"
proof (intro conjI impI)
  assume a: "returned_params (generate_xf_image lbl lc fc sz g) = Inr p"
  show t: "in_band 10 (top_fin_length p) (top_length p)" by (rule xf_fin_facts(1)[OF a])
  { assume "fin_case p \<noteq> ''SAME_CONFIG''"
    then show "in_band 10 (bottom_fin_length p) (bottom_length p)" by (rule xf_fin_facts(3)[OF a]) }
  { assume s: "fin_case p = ''SAME_CONFIG''"
    from xf_fin_facts(2)[OF a s] show e: "bottom_fin_length p = top_fin_length p" by simp
    from t e show b: "in_band 10 (bottom_fin_length p) (top_length p)" by simp
    assume "top_length p \<le> bottom_length p"
    with b show "in_band 10 (bottom_fin_length p) (bottom_length p)" by (rule in_band_mono) }
next
  assume a: "returned_params (generate_muller_lyer_image td bd fc' sz' g') = Inr q"
  show "in_band 15 (ml_top_fin_length q) (shaft_length q)" by (rule ml_fin_facts(1)[OF a])
  show "in_band 15 (ml_bottom_fin_length q) (shaft_length q)" by (rule ml_fin_facts(2)[OF a])
qed

theorem fin_lengths_in_band_witness:
  "returned_params (generate_xf_image 1 ''SHORT'' ''SAME_CONFIG'' 256 ([9, 9, 60, 58, 2, 30] @- sconst 0))
     = Inr \<lparr>label = 1, length_case = ''SHORT'', fin_case = ''SAME_CONFIG'',
             top_length = 45, bottom_length = 105, top_fin_length = 12,
             top_fin_angle_deg = 45, bottom_fin_length = 12,
             bottom_fin_angle_deg = 45, top_y = 60, bottom_y = 162\<rparr> \<and>
   in_band 10 12 45 \<and> in_band 10 12 105 \<and>
   returned_params (generate_xf_image 0 ''EQUAL'' ''DIFF_CONFIG'' 256 ([9, 9, 60, 25, 30, 3, 7] @- sconst 0))
     = Inr \<lparr>label = 0, length_case = ''EQUAL'', fin_case = ''DIFF_CONFIG'',
             top_length = 105, bottom_length = 105, top_fin_length = 35,
             top_fin_angle_deg = 45, bottom_fin_length = 13,
             bottom_fin_angle_deg = 22, top_y = 60, bottom_y = 162\<rparr> \<and>
   in_band 10 35 105 \<and> in_band 10 13 105 \<and>
   returned_params (generate_muller_lyer_image ''LONG'' ''DIFF_DIR'' ''SAME_CONFIG'' 256 ([9, 9, 60, 3, 30] @- sconst 0))
     = Inr \<lparr>ml_label = 0, top_dir_case = ''LONG'', bottom_dir_case = ''DIFF_DIR'',
             ml_fin_case = ''SAME_CONFIG'', shaft_length = 105, ml_top_fin_length = 18,
             ml_top_fin_angle_deg = 45, ml_bottom_fin_length = 18,
             ml_bottom_fin_angle_deg = 45, ml_top_y = 60, ml_bottom_y = 162\<rparr> \<and>
   in_band 15 18 105"
  using fin_lengths_in_band
    [of 1 "''SHORT''" "''SAME_CONFIG''" 256 "[9, 9, 60, 58, 2, 30] @- sconst 0"
        "\<lparr>label = 1, length_case = ''SHORT'', fin_case = ''SAME_CONFIG'',
             top_length = 45, bottom_length = 105, top_fin_length = 12,
             top_fin_angle_deg = 45, bottom_fin_length = 12,
             bottom_fin_angle_deg = 45, top_y = 60, bottom_y = 162\<rparr>"
        "''LONG''" "''DIFF_DIR''" "''SAME_CONFIG''" 256 "[9, 9, 60, 3, 30] @- sconst 0"
        "\<lparr>ml_label = 0, top_dir_case = ''LONG'', bottom_dir_case = ''DIFF_DIR'',
             ml_fin_case = ''SAME_CONFIG'', shaft_length = 105, ml_top_fin_length = 18,
             ml_top_fin_angle_deg = 45, ml_bottom_fin_length = 18,
             ml_bottom_fin_angle_deg = 45, ml_top_y = 60, ml_bottom_y = 162\<rparr>"]
    fin_lengths_in_band
    [of 0 "''EQUAL''" "''DIFF_CONFIG''" 256 "[9, 9, 60, 25, 30, 3, 7] @- sconst 0"
        "\<lparr>label = 0, length_case = ''EQUAL'', fin_case = ''DIFF_CONFIG'',
             top_length = 105, bottom_length = 105, top_fin_length = 35,
             top_fin_angle_deg = 45, bottom_fin_length = 13,
             bottom_fin_angle_deg = 22, top_y = 60, bottom_y = 162\<rparr>"
        "''LONG''" "''DIFF_DIR''" "''SAME_CONFIG''" 256 "[9, 9, 60, 3, 30] @- sconst 0"
        "\<lparr>ml_label = 0, top_dir_case = ''LONG'', bottom_dir_case = ''DIFF_DIR'',
             ml_fin_case = ''SAME_CONFIG'', shaft_length = 105, ml_top_fin_length = 18,
             ml_top_fin_angle_deg = 45, ml_bottom_fin_length = 18,
             ml_bottom_fin_angle_deg = 45, ml_top_y = 60, ml_bottom_y = 162\<rparr>"]
  by (simp add: eval_defs in_band_def)

text \<open>
  The claim as stated fails for \<^verbatim>\<open>SAME_CONFIG\<close> with a longer top shaft: the copied fin
  length 35 exceeds a third of the clamped bottom shaft 45.
\<close>

theorem fin_band_counterexample:
  "returned_params (generate_xf_image 1 ''LONG'' ''SAME_CONFIG'' 256 ([9, 9, 60, 58, 25, 30] @- sconst 0))
     = Inr \<lparr>label = 1, length_case = ''LONG'', fin_case = ''SAME_CONFIG'',
             top_length = 105, bottom_length = 45, top_fin_length = 35,
             top_fin_angle_deg = 45, bottom_fin_length = 35,
             bottom_fin_angle_deg = 45, top_y = 60, bottom_y = 162\<rparr> \<and>
   \<not> in_band 10
       (bottom_fin_length \<lparr>label = 1, length_case = ''LONG'', fin_case = ''SAME_CONFIG'',
             top_length = 105, bottom_length = 45, top_fin_length = 35,
             top_fin_angle_deg = 45, bottom_fin_length = 35,
             bottom_fin_angle_deg = 45, top_y = 60, bottom_y = 162\<rparr>)
       (bottom_length \<lparr>label = 1, length_case = ''LONG'', fin_case = ''SAME_CONFIG'',
             top_length = 105, bottom_length = 45, top_fin_length = 35,
             top_fin_angle_deg = 45, bottom_fin_length = 35,
             bottom_fin_angle_deg = 45, top_y = 60, bottom_y = 162\<rparr>)"
  by (simp add: eval_defs in_band_def)

section \<open>Loading an item\<close>

text \<open>
  Claim C7. When opening the image of item \<open>idx\<close> fails, \<^verbatim>\<open>MullerLyerDataset.__getitem__\<close>
  goes on with the gray placeholder \<^verbatim>\<open>Image.new("L", (IMG_SIZE, IMG_SIZE), 128)\<close> of the
  module's size 256, to which the transform (if any) is applied, and returns it with the
  parameters; \<^verbatim>\<open>CrossFinDataset.__getitem__\<close> has no handler and raises the error of the
  open.
\<close>

theorem image_open_failure_asymmetry:
  assumes "getitem (image_files ml) idx = Inr fname"
    and "getitem (params ml) idx = Inr ps"
    and "opener (os_path_join (data_dir ml) fname) = Inl e"
    and "getitem (image_files xf) idx' = Inr fname'"
    and "getitem (params xf) idx' = Inr p"
    and "opener' (os_path_join (data_dir xf) fname') = Inl e'"
  shows "MullerLyerDataset_getitem ml opener idx =
           bnd (apply_transform (transform ml) (Image_new ''L'' (256, 256) (Level 128)))
             (\<lambda>image'. Inr (image', ps)) \<and>
         (transform ml = None \<longrightarrow>
            MullerLyerDataset_getitem ml opener idx =
              Inr (PIL (Image_new ''L'' (256, 256) (Level 128)), ps)) \<and>
         CrossFinDataset_getitem xf opener' idx' = Inl e'"
proof -
  have ml: "MullerLyerDataset_getitem ml opener idx =
           bnd (apply_transform (transform ml) (Image_new ''L'' (256, 256) (Level 128)))
             (\<lambda>image'. Inr (image', ps))"
    using assms(1-3) by (simp add: MullerLyerDataset_getitem_def open_L_def IMG_SIZE_def Let_def)
  have xf: "CrossFinDataset_getitem xf opener' idx' = Inl e'"
    using assms(4-6) by (simp add: CrossFinDataset_getitem_def open_L_def Let_def)
  from ml xf show ?thesis by (simp add: apply_transform_def)
qed

theorem image_open_failure_asymmetry_witness:
  "getitem [''ml_0_0_LONG_SAME_DIR_SAME_CONFIG_100_20_45_20_45_60_160.png''] 0
     = Inr ''ml_0_0_LONG_SAME_DIR_SAME_CONFIG_100_20_45_20_45_60_160.png'' \<and>
   getitem [''xf_0_0_EQUAL_SAME_CONFIG_100_100_20_45_20_45_60_160.png''] 0
     = Inr ''xf_0_0_EQUAL_SAME_CONFIG_100_100_20_45_20_45_60_160.png'' \<and>
   MullerLyerDataset_getitem
     \<lparr>data_dir = ''test_data'', transform = (None :: (image \<Rightarrow> error + unit) option),
      image_files = [''ml_0_0_LONG_SAME_DIR_SAME_CONFIG_100_20_45_20_45_60_160.png''],
      params = [\<lparr>e_index = 0, e_label = 0, e_top_dir = ''LONG'', e_bottom_dir = ''SAME_DIR'',
                 e_fin_case = ''SAME_CONFIG'', e_shaft_len = 100, e_top_fin_len = 20,
                 e_top_fin_ang = 45, e_bot_fin_len = 20, e_bot_fin_ang = 45, e_top_y = 60,
                 e_bottom_y = 160,
                 e_filename = ''ml_0_0_LONG_SAME_DIR_SAME_CONFIG_100_20_45_20_45_60_160.png''\<rparr>]\<rparr>
     (\<lambda>path. Inl OSError) 0
   = Inr (PIL \<lparr>im_mode = ''L'', im_size = (256, 256), background = Level 128, strokes = []\<rparr>,
          \<lparr>e_index = 0, e_label = 0, e_top_dir = ''LONG'', e_bottom_dir = ''SAME_DIR'',
                 e_fin_case = ''SAME_CONFIG'', e_shaft_len = 100, e_top_fin_len = 20,
                 e_top_fin_ang = 45, e_bot_fin_len = 20, e_bot_fin_ang = 45, e_top_y = 60,
                 e_bottom_y = 160,
                 e_filename = ''ml_0_0_LONG_SAME_DIR_SAME_CONFIG_100_20_45_20_45_60_160.png''\<rparr>) \<and>
   CrossFinDataset_getitem
     \<lparr>data_dir = ''training_data'', transform = (None :: (image \<Rightarrow> error + unit) option),
      image_files = [''xf_0_0_EQUAL_SAME_CONFIG_100_100_20_45_20_45_60_160.png''],
      params = [\<lparr>p_index = 0, p_label = 0, p_length_case = ''EQUAL'',
                 p_fin_case = ''SAME_CONFIG'', p_top_length = 100, p_bottom_length = 100,
                 p_top_fin_length = 20, p_top_fin_angle = 45, p_bot_fin_length = 20,
                 p_bot_fin_angle = 45, p_top_y = 60, p_bottom_y = 160,
                 p_filename = ''xf_0_0_EQUAL_SAME_CONFIG_100_100_20_45_20_45_60_160.png''\<rparr>]\<rparr>
     (\<lambda>path. Inl OSError) 0
   = Inl OSError"
  using image_open_failure_asymmetry
    [of "\<lparr>data_dir = ''test_data'', transform = (None :: (image \<Rightarrow> error + unit) option),
      image_files = [''ml_0_0_LONG_SAME_DIR_SAME_CONFIG_100_20_45_20_45_60_160.png''],
      params = [\<lparr>e_index = 0, e_label = 0, e_top_dir = ''LONG'', e_bottom_dir = ''SAME_DIR'',
                 e_fin_case = ''SAME_CONFIG'', e_shaft_len = 100, e_top_fin_len = 20,
                 e_top_fin_ang = 45, e_bot_fin_len = 20, e_bot_fin_ang = 45, e_top_y = 60,
                 e_bottom_y = 160,
                 e_filename = ''ml_0_0_LONG_SAME_DIR_SAME_CONFIG_100_20_45_20_45_60_160.png''\<rparr>]\<rparr>"
      0 "''ml_0_0_LONG_SAME_DIR_SAME_CONFIG_100_20_45_20_45_60_160.png''"
      "\<lparr>e_index = 0, e_label = 0, e_top_dir = ''LONG'', e_bottom_dir = ''SAME_DIR'',
                 e_fin_case = ''SAME_CONFIG'', e_shaft_len = 100, e_top_fin_len = 20,
                 e_top_fin_ang = 45, e_bot_fin_len = 20, e_bot_fin_ang = 45, e_top_y = 60,
                 e_bottom_y = 160,
                 e_filename = ''ml_0_0_LONG_SAME_DIR_SAME_CONFIG_100_20_45_20_45_60_160.png''\<rparr>"
      "\<lambda>path. Inl OSError" OSError
      "\<lparr>data_dir = ''training_data'', transform = (None :: (image \<Rightarrow> error + unit) option),
      image_files = [''xf_0_0_EQUAL_SAME_CONFIG_100_100_20_45_20_45_60_160.png''],
      params = [\<lparr>p_index = 0, p_label = 0, p_length_case = ''EQUAL'',
                 p_fin_case = ''SAME_CONFIG'', p_top_length = 100, p_bottom_length = 100,
                 p_top_fin_length = 20, p_top_fin_angle = 45, p_bot_fin_length = 20,
                 p_bot_fin_angle = 45, p_top_y = 60, p_bottom_y = 160,
                 p_filename = ''xf_0_0_EQUAL_SAME_CONFIG_100_100_20_45_20_45_60_160.png''\<rparr>]\<rparr>"
      0 "''xf_0_0_EQUAL_SAME_CONFIG_100_100_20_45_20_45_60_160.png''"
      "\<lparr>p_index = 0, p_label = 0, p_length_case = ''EQUAL'',
                 p_fin_case = ''SAME_CONFIG'', p_top_length = 100, p_bottom_length = 100,
                 p_top_fin_length = 20, p_top_fin_angle = 45, p_bot_fin_length = 20,
                 p_bot_fin_angle = 45, p_top_y = 60, p_bottom_y = 160,
                 p_filename = ''xf_0_0_EQUAL_SAME_CONFIG_100_100_20_45_20_45_60_160.png''\<rparr>"
      "\<lambda>path. Inl OSError" OSError]
  by (simp add: getitem_def Image_new_def apply_transform_def)

section \<open>The entry point\<close>

text \<open>
  Claim C10. For every first argument other than \<^verbatim>\<open>"train"\<close> and \<^verbatim>\<open>"test"\<close>,
  \<^verbatim>\<open>generate_and_save\<close> returns normally and changes nothing: no directory is created, no
  file is written and no draw is made, whatever the count, the weights and the image size.
\<close>

theorem generate_and_save_other_kind:
  assumes "kind \<noteq> ''train''" and "kind \<noteq> ''test''"
  shows "generate_and_save kind num_images case_ratio image_size (fs, g) = Inr (fs, g)"
  using assms by (simp add: generate_and_save_def)

theorem generate_and_save_other_kind_witness:
  "''validation'' \<noteq> ''train'' \<and> ''validation'' \<noteq> ''test'' \<and>
   generate_and_save ''validation'' 2000 [1, 1, 1, 1, 1, 2] 256
     (\<lparr>dirs = {}, files = Map.empty\<rparr>, sconst 0)
   = Inr (\<lparr>dirs = {}, files = Map.empty\<rparr>, sconst 0)"
  using generate_and_save_other_kind
    [of "''validation''" 2000 "[1, 1, 1, 1, 1, 2]" 256 "\<lparr>dirs = {}, files = Map.empty\<rparr>" "sconst 0"]
  by simp

section \<open>Evaluating the decoders and the case weights\<close>

lemmas decode_defs = CrossFin_decode_def MullerLyer_decode_def re_match_def xf_pattern_def
  ml_pattern_def lit_match_def is_digit_def group_def py_int_def digit_value_def

text \<open>
  Claim C9. Decoding checks the shape of the tokens only. The Cross-Fin name below has
  label 0 with the length case \<^verbatim>\<open>LONG\<close>, the M\"uller-Lyer name has label 1, which no
  generated record has; both decode, and the scan of a directory holding them puts the
  records into the index as they are (the stray \<^verbatim>\<open>notes.txt\<close> is skipped).
\<close>

theorem decode_ignores_invariants:
  "CrossFin_decode ''xf_0_0_LONG_SAME_CONFIG_100_100_20_45_20_45_60_160.png''
     = Some \<lparr>p_index = 0, p_label = 0, p_length_case = ''LONG'',
               p_fin_case = ''SAME_CONFIG'', p_top_length = 100, p_bottom_length = 100,
               p_top_fin_length = 20, p_top_fin_angle = 45, p_bot_fin_length = 20,
               p_bot_fin_angle = 45, p_top_y = 60, p_bottom_y = 160,
               p_filename = ''xf_0_0_LONG_SAME_CONFIG_100_100_20_45_20_45_60_160.png''\<rparr> \<and>
   CrossFinDataset_init dir tr
       (Inr [''notes.txt'', ''xf_0_0_LONG_SAME_CONFIG_100_100_20_45_20_45_60_160.png''])
     = Inr \<lparr>data_dir = dir, transform = tr,
             image_files = [''xf_0_0_LONG_SAME_CONFIG_100_100_20_45_20_45_60_160.png''],
             params = [\<lparr>p_index = 0, p_label = 0, p_length_case = ''LONG'',
               p_fin_case = ''SAME_CONFIG'', p_top_length = 100, p_bottom_length = 100,
               p_top_fin_length = 20, p_top_fin_angle = 45, p_bot_fin_length = 20,
               p_bot_fin_angle = 45, p_top_y = 60, p_bottom_y = 160,
               p_filename = ''xf_0_0_LONG_SAME_CONFIG_100_100_20_45_20_45_60_160.png''\<rparr>]\<rparr> \<and>
   MullerLyer_decode ''ml_0_1_LONG_SAME_DIR_SAME_CONFIG_100_20_45_30_50_60_160.png''
     = Some \<lparr>e_index = 0, e_label = 1, e_top_dir = ''LONG'', e_bottom_dir = ''SAME_DIR'',
               e_fin_case = ''SAME_CONFIG'', e_shaft_len = 100, e_top_fin_len = 20,
               e_top_fin_ang = 45, e_bot_fin_len = 30, e_bot_fin_ang = 50, e_top_y = 60,
               e_bottom_y = 160,
               e_filename = ''ml_0_1_LONG_SAME_DIR_SAME_CONFIG_100_20_45_30_50_60_160.png''\<rparr> \<and>
   MullerLyerDataset_init dir' tr'
       (Inr [''ml_0_1_LONG_SAME_DIR_SAME_CONFIG_100_20_45_30_50_60_160.png''])
     = Inr \<lparr>data_dir = dir', transform = tr',
             image_files = [''ml_0_1_LONG_SAME_DIR_SAME_CONFIG_100_20_45_30_50_60_160.png''],
             params = [\<lparr>e_index = 0, e_label = 1, e_top_dir = ''LONG'',
               e_bottom_dir = ''SAME_DIR'',
               e_fin_case = ''SAME_CONFIG'', e_shaft_len = 100, e_top_fin_len = 20,
               e_top_fin_ang = 45, e_bot_fin_len = 30, e_bot_fin_ang = 50, e_top_y = 60,
               e_bottom_y = 160,
               e_filename = ''ml_0_1_LONG_SAME_DIR_SAME_CONFIG_100_20_45_30_50_60_160.png''\<rparr>]\<rparr>"
  by (simp add: decode_defs CrossFinDataset_init_def MullerLyerDataset_init_def scan_def)

text \<open>
  Claim C8, at a name the patterns should reject. \<^verbatim>\<open>$\<close> also matches just before a final
  newline, so a well-formed name followed by a newline character, which a directory may
  hold, is matched by \<^verbatim>\<open>re.match\<close> and indexed with its twelve fields.
\<close>

theorem trailing_newline_decodes:
  "CrossFin_decode (''xf_0_1_LONG_DIFF_CONFIG_120_115_15_45_18_50_60_200.png'' @ [CHR 0x0A])
     = Some \<lparr>p_index = 0, p_label = 1, p_length_case = ''LONG'',
               p_fin_case = ''DIFF_CONFIG'', p_top_length = 120, p_bottom_length = 115,
               p_top_fin_length = 15, p_top_fin_angle = 45, p_bot_fin_length = 18,
               p_bot_fin_angle = 50, p_top_y = 60, p_bottom_y = 200,
               p_filename =
                 ''xf_0_1_LONG_DIFF_CONFIG_120_115_15_45_18_50_60_200.png'' @ [CHR 0x0A]\<rparr> \<and>
   MullerLyer_decode
       (''ml_0_0_LONG_SAME_DIR_SAME_CONFIG_100_20_45_20_45_60_160.png'' @ [CHR 0x0A])
     = Some \<lparr>e_index = 0, e_label = 0, e_top_dir = ''LONG'', e_bottom_dir = ''SAME_DIR'',
               e_fin_case = ''SAME_CONFIG'', e_shaft_len = 100, e_top_fin_len = 20,
               e_top_fin_ang = 45, e_bot_fin_len = 20, e_bot_fin_ang = 45, e_top_y = 60,
               e_bottom_y = 160,
               e_filename =
                 ''ml_0_0_LONG_SAME_DIR_SAME_CONFIG_100_20_45_20_45_60_160.png'' @ [CHR 0x0A]\<rparr>"
  by (simp add: decode_defs)

text \<open>
  Claim C3, at weights that tell the positions apart. The docstring of
  \<^verbatim>\<open>generate_muller_lyer_dataset\<close> gives the tuple as \<^verbatim>\<open>(LONG, SHORT, SAME_DIR, DIFF_DIR,
  SAME_CONFIG, DIFF_CONFIG)\<close>; with \<^verbatim>\<open>(1, 0, 0, 1, 1, 0)\<close> it promises \<^verbatim>\<open>LONG\<close> and
  \<^verbatim>\<open>DIFF_DIR\<close>, and the code, which weights the top direction with positions 2-3 and the
  bottom direction with positions 4-5, returns \<^verbatim>\<open>SHORT\<close> and \<^verbatim>\<open>SAME_DIR\<close>. The docstring of
  \<^verbatim>\<open>generate_xf_dataset\<close> gives positions 0-1 to the labels 0 and 1; with weight 0 for label 1
  the code, which draws the label with \<^verbatim>\<open>randint(0, 1)\<close>, still returns a label 1.
\<close>

theorem weights_cross_axes:
  "returned_params (generate_muller_lyer_dataset 1 [1, 0, 0, 1, 1, 0] 256 (sconst 0))
     = Inr [\<lparr>ml_label = 0, top_dir_case = ''SHORT'', bottom_dir_case = ''SAME_DIR'',
              ml_fin_case = ''SAME_CONFIG'', shaft_length = 45, ml_top_fin_length = 15,
              ml_top_fin_angle_deg = 15, ml_bottom_fin_length = 15,
              ml_bottom_fin_angle_deg = 15, ml_top_y = 51, ml_bottom_y = 153\<rparr>] \<and>
   returned_params (generate_xf_dataset 1 [1, 0, 1, 1, 1, 1] 256 ([1] @- sconst 0))
     = Inr [\<lparr>label = 1, length_case = ''LONG'', fin_case = ''SAME_CONFIG'',
              top_length = 45, bottom_length = 45, top_fin_length = 10,
              top_fin_angle_deg = 15, bottom_fin_length = 10,
              bottom_fin_angle_deg = 15, top_y = 51, bottom_y = 153\<rparr>]"
  by (simp add: generate_muller_lyer_dataset_def generate_muller_lyer_dataset_step_def
      generate_xf_dataset_def generate_xf_dataset_step_def choices_def slice_def eval_defs)

end
